theory Spec2Isabelle
  imports Complex_Main
begin

section \<open>Numbers\<close>

text \<open>
  The source is JavaScript: every number is an IEEE double.  The development models the
  finite numbers as \<^typ>\<open>real\<close>, so arithmetic is exact; the places where the source
  divides by zero and continues with \<open>Infinity\<close> or \<open>NaN\<close> are written out as separate
  branches of the model.  Where a property depends on the rounding of doubles, the function
  is modelled once more with every operation rounded.  \<open>Math.round\<close> rounds to the nearest integer and a tie towards
  \<open>+\<infinity>\<close>, which on the reals is \<open>\<lfloor>x + 1/2\<rfloor>\<close>.
\<close>

definition Math_round :: "real \<Rightarrow> real" where
  "Math_round v = of_int \<lfloor>v + 1 / 2\<rfloor>"

definition SQRT3 :: real where
  "SQRT3 = sqrt 3"

section \<open>The radius-bounded variant (pointy-top)\<close>

subsection \<open>Hex\<close>

record Hex =
  hex_q :: real
  hex_r :: real
  hex_s :: real

text \<open>
  The constructor of the radius-bounded variant.  An argument that is \<open>undefined\<close> is
  \<open>None\<close>; a sum with an undefined summand is \<open>NaN\<close>, whose rounding differs from 0, so the
  correction branch is entered whenever an argument is missing.
\<close>

definition Hex_new :: "real option \<Rightarrow> real option \<Rightarrow> real option \<Rightarrow> Hex" where
  "Hex_new q r s =
     (case (q, r, s) of
        (Some a, Some b, Some c) \<Rightarrow>
          if Math_round (a + b + c) \<noteq> 0
          then \<lparr>hex_q = a, hex_r = b, hex_s = - a - b\<rparr>
          else \<lparr>hex_q = a, hex_r = b, hex_s = c\<rparr>
      | (Some a, Some b, None) \<Rightarrow> \<lparr>hex_q = a, hex_r = b, hex_s = - a - b\<rparr>
      | (Some a, None, Some c) \<Rightarrow> \<lparr>hex_q = a, hex_r = - a - c, hex_s = c\<rparr>
      | (None, Some b, Some c) \<Rightarrow> \<lparr>hex_q = - b - c, hex_r = b, hex_s = c\<rparr>
      | _ \<Rightarrow> \<lparr>hex_q = 0, hex_r = 0, hex_s = 0\<rparr>)"

definition Hex_add :: "Hex \<Rightarrow> Hex \<Rightarrow> Hex" where
  "Hex_add hexA hexB =
     Hex_new (Some (hex_q hexA + hex_q hexB)) (Some (hex_r hexA + hex_r hexB))
             (Some (hex_s hexA + hex_s hexB))"

definition Hex_equals :: "Hex \<Rightarrow> Hex \<Rightarrow> bool" where
  "Hex_equals hexA hexB \<longleftrightarrow>
     hex_q hexA = hex_q hexB \<and> hex_r hexA = hex_r hexB \<and> hex_s hexA = hex_s hexB"

definition axial :: "Hex \<Rightarrow> real \<times> real" where
  "axial h = (hex_q h, hex_r h)"

subsection \<open>Layout and conversions\<close>

record Point =
  point_x :: real
  point_y :: real

record Size =
  size_q :: real
  size_r :: real

record Orientation =
  start_angle :: real
  f0 :: Point
  f1 :: Point
  f2 :: Point
  f3 :: Point
  f4 :: Point
  f5 :: Point

record Layout =
  orientation :: Orientation
  hex_size :: Size
  origin :: Point

definition HEX_CONSTANTS_orientation :: Orientation where
  "HEX_CONSTANTS_orientation =
     \<lparr>start_angle = 0.5,
      f0 = \<lparr>point_x = SQRT3, point_y = SQRT3 / 2\<rparr>,
      f1 = \<lparr>point_x = SQRT3 / 2, point_y = SQRT3 / 2\<rparr>,
      f2 = \<lparr>point_x = 0, point_y = SQRT3\<rparr>,
      f3 = \<lparr>point_x = - SQRT3 / 2, point_y = SQRT3 / 2\<rparr>,
      f4 = \<lparr>point_x = - SQRT3, point_y = 0\<rparr>,
      f5 = \<lparr>point_x = - SQRT3 / 2, point_y = - SQRT3 / 2\<rparr>\<rparr>"

definition hex_to_pixel :: "Hex \<Rightarrow> Layout \<Rightarrow> Point" where
  "hex_to_pixel hex layout =
     (let M = orientation layout; size = hex_size layout; origin = origin layout;
          q = hex_q hex; r = hex_r hex;
          pixelX = size_q size * (point_x (f0 M) * q + point_x (f1 M) * r) + point_x origin;
          pixelY = size_r size * (point_y (f2 M) * q + point_y (f3 M) * r) + point_y origin
      in \<lparr>point_x = pixelX, point_y = pixelY\<rparr>)"

definition hex_round :: "Hex \<Rightarrow> Hex" where
  "hex_round hex =
     (let rx = Math_round (hex_q hex);
          ry = Math_round (hex_r hex);
          rz = Math_round (hex_s hex);
          x_diff = \<bar>rx - hex_q hex\<bar>;
          y_diff = \<bar>ry - hex_r hex\<bar>;
          z_diff = \<bar>rz - hex_s hex\<bar>
      in if x_diff > y_diff \<and> x_diff > z_diff
         then Hex_new (Some (- ry - rz)) (Some ry) (Some rz)
         else if y_diff > z_diff
         then Hex_new (Some rx) (Some (- rx - rz)) (Some rz)
         else Hex_new (Some rx) (Some ry) (Some (- rx - ry)))"

text \<open>
  \<open>pixel_to_hex\<close> divides by the two components of the cell size.  A zero component makes
  the source continue with \<open>Infinity\<close> or \<open>NaN\<close>; the model returns \<open>None\<close> there and
  the finite result otherwise.
\<close>

definition pixel_to_hex :: "Point \<Rightarrow> Layout \<Rightarrow> Hex option" where
  "pixel_to_hex point layout =
     (let M = orientation layout; size = hex_size layout; origin = origin layout
      in if size_q size = 0 \<or> size_r size = 0 then None
         else
           let pt = \<lparr>point_x = (point_x point - point_x origin) / size_q size,
                     point_y = (point_y point - point_y origin) / size_r size\<rparr>;
               q = point_x (f0 M) * point_x pt + point_x (f1 M) * point_y pt;
               r = point_y (f2 M) * point_x pt + point_y (f3 M) * point_y pt
           in Some (hex_round (Hex_new (Some q) (Some r) (Some (- q - r)))))"

definition pointy_layout :: "real \<Rightarrow> Point \<Rightarrow> Layout" where
  "pointy_layout sz c =
     \<lparr>orientation = HEX_CONSTANTS_orientation,
      hex_size = \<lparr>size_q = sz, size_r = sz\<rparr>,
      origin = c\<rparr>"

subsection \<open>The grid and the selection\<close>

text \<open>
  The module-level variables of the radius-bounded variant.  \<open>currentMaxRadius\<close> is
  \<open>None\<close> when the source computes \<open>NaN\<close> for it.  The graphics objects carry no
  geometry of their own: \<open>hexGraphicsMap\<close> receives one entry for every element pushed to
  \<open>gameHexes\<close>, in the same loop iteration, and is cleared together with it, so a lookup of
  an element of \<open>gameHexes\<close> always succeeds and the map is not part of the state.  Of
  \<open>selectedHexGraphics\<close> only its being set is kept.
\<close>

record State =
  gameHexes :: "Hex list"
  currentHexSize :: real
  currentScreenCenter :: Point
  currentMaxRadius :: "int option"
  selectedHex :: "Hex option"
  selectedHexGraphics :: bool

text \<open>The two nested loops that fill \<open>gameHexes\<close>, for a radius that is a number.\<close>

definition radius_row :: "int \<Rightarrow> int \<Rightarrow> Hex list" where
  "radius_row R q =
     map (\<lambda>r. Hex_new (Some (of_int q)) (Some (of_int r)) (Some (of_int (- q - r))))
       [max (- R) (- q - R) .. min R (- q + R)]"

definition radius_hexes :: "int \<Rightarrow> Hex list" where
  "radius_hexes R = concat (map (radius_row R) [- R .. R])"

text \<open>
  \<open>updateGridDisplay\<close> reads the viewport size, fits the cell size to a target radius of
  5 and recomputes the radius from the chosen size.  The cell size is 0 exactly when the
  smaller of the two required sizes is 0; both quotients by it are then \<open>Infinity\<close> or
  \<open>NaN\<close>, at least one of them \<open>NaN\<close>, so that \<open>Math.min\<close>, \<open>Math.floor\<close> and
  \<open>Math.max\<close> return \<open>NaN\<close> and neither loop runs.  The selection is not touched.
\<close>

definition updateGridDisplay :: "real \<Rightarrow> real \<Rightarrow> State \<Rightarrow> State" where
  "updateGridDisplay screenWidth screenHeight st =
     (let center = \<lparr>point_x = screenWidth / 2, point_y = screenHeight / 2\<rparr>;
          targetMaxRadius = (5::real);
          requiredSizeForWidth =
            (if targetMaxRadius > 0 then (screenWidth / (2 * targetMaxRadius + 1)) / SQRT3
             else screenWidth / 2);
          requiredSizeForHeight =
            (if targetMaxRadius > 0 then (screenHeight / (2 * targetMaxRadius + 1)) / 2
             else screenHeight / 2);
          size = min requiredSizeForWidth requiredSizeForHeight * 0.9;
          radius =
            (if size = 0 then None
             else
               let R_from_height = (screenHeight / size / 2 - 1) / 2;
                   R_from_width = (screenWidth / size / SQRT3 - 1) / 2
               in Some (max 0 \<lfloor>min R_from_height R_from_width\<rfloor>))
      in st\<lparr>gameHexes := (case radius of None \<Rightarrow> [] | Some R \<Rightarrow> radius_hexes R),
            currentHexSize := size,
            currentScreenCenter := center,
            currentMaxRadius := radius\<rparr>)"

definition onHexClick :: "Point \<Rightarrow> State \<Rightarrow> State" where
  "onHexClick clickPoint st =
     (let clickedHex = pixel_to_hex clickPoint
                         (pointy_layout (currentHexSize st) (currentScreenCenter st));
          foundHex = (case clickedHex of None \<Rightarrow> None
                      | Some c \<Rightarrow> find (\<lambda>hex. Hex_equals hex c) (gameHexes st));
          st1 = (if selectedHexGraphics st
                 then st\<lparr>selectedHexGraphics := False, selectedHex := None\<rparr> else st)
      in case foundHex of
           None \<Rightarrow> st1
         | Some h \<Rightarrow> st1\<lparr>selectedHex := Some h, selectedHexGraphics := True\<rparr>)"

text \<open>
  A resize of the window sets the screen centre and regenerates the grid; \<open>init\<close> ends
  with the same call.
\<close>

definition onWindowResize :: "real \<Rightarrow> real \<Rightarrow> State \<Rightarrow> State" where
  "onWindowResize innerWidth innerHeight st =
     updateGridDisplay innerWidth innerHeight
       (st\<lparr>currentScreenCenter := \<lparr>point_x = innerWidth / 2, point_y = innerHeight / 2\<rparr>\<rparr>)"

text \<open>The state in which the page starts: nothing generated, nothing selected.\<close>

definition initial_State :: State where
  "initial_State =
     \<lparr>gameHexes = [], currentHexSize = 0,
      currentScreenCenter = \<lparr>point_x = 0, point_y = 0\<rparr>,
      currentMaxRadius = None, selectedHex = None, selectedHexGraphics = False\<rparr>"

section \<open>The pixel centre in IEEE doubles\<close>

text \<open>
  One property of \<open>hex_to_pixel\<close> depends on the last binary place of its outputs.  For
  it the function is modelled a second time, on doubles.
\<close>

text \<open>
  Rounding of a real number to the nearest double.  For a value \<open>v\<close> with
  \<open>2 ^ e \<le> |v| < 2 ^ (e + 1)\<close> the doubles around it are the multiples of
  \<open>2 ^ (e - 52)\<close>, written \<open>pow2 (e - 52)\<close>, and a value half-way between two of them goes
  to the one with the even multiplier.  The definition covers the normal range of the
  doubles, from \<open>2 ^ (-1022)\<close> up to \<open>2 ^ 1024\<close>, in which all values of this section lie.
\<close>

definition pow2 :: "int \<Rightarrow> real" where
  "pow2 k = (if 0 \<le> k then 2 ^ nat k else 1 / 2 ^ nat (- k))"

definition round_even :: "real \<Rightarrow> int" where
  "round_even n =
     (let f = \<lfloor>n\<rfloor>; d = n - of_int f
      in if d < 1 / 2 then f else if d > 1 / 2 then f + 1 else if even f then f else f + 1)"

definition double :: "real \<Rightarrow> real" where
  "double v =
     (if v = 0 then 0
      else let u = pow2 (\<lfloor>log 2 \<bar>v\<bar>\<rfloor> - 52) in u * of_int (round_even (v / u)))"

text \<open>The four operations of the source on doubles: the exact result, rounded.\<close>

definition dadd :: "real \<Rightarrow> real \<Rightarrow> real" where
  "dadd a b = double (a + b)"

definition dsub :: "real \<Rightarrow> real \<Rightarrow> real" where
  "dsub a b = double (a - b)"

definition dmul :: "real \<Rightarrow> real \<Rightarrow> real" where
  "dmul a b = double (a * b)"

definition ddiv :: "real \<Rightarrow> real \<Rightarrow> real" where
  "ddiv a b = double (a / b)"

text \<open>
  \<open>SQRT3\<close>, the orientation constants and \<open>hex_to_pixel\<close> once more, now with every
  operation of the source rounded where the source rounds it.
\<close>

definition SQRT3_double :: real where
  "SQRT3_double = double (sqrt 3)"

definition HEX_CONSTANTS_orientation_double :: Orientation where
  "HEX_CONSTANTS_orientation_double =
     \<lparr>start_angle = 0.5,
      f0 = \<lparr>point_x = SQRT3_double, point_y = ddiv SQRT3_double 2\<rparr>,
      f1 = \<lparr>point_x = ddiv SQRT3_double 2, point_y = ddiv SQRT3_double 2\<rparr>,
      f2 = \<lparr>point_x = 0, point_y = SQRT3_double\<rparr>,
      f3 = \<lparr>point_x = ddiv (- SQRT3_double) 2, point_y = ddiv SQRT3_double 2\<rparr>,
      f4 = \<lparr>point_x = - SQRT3_double, point_y = 0\<rparr>,
      f5 = \<lparr>point_x = ddiv (- SQRT3_double) 2, point_y = ddiv (- SQRT3_double) 2\<rparr>\<rparr>"

definition hex_to_pixel_double :: "Hex \<Rightarrow> Layout \<Rightarrow> Point" where
  "hex_to_pixel_double hex layout =
     (let M = orientation layout; size = hex_size layout; origin = origin layout;
          q = hex_q hex; r = hex_r hex;
          pixelX = dadd (dmul (size_q size) (dadd (dmul (point_x (f0 M)) q) (dmul (point_x (f1 M)) r)))
                        (point_x origin);
          pixelY = dadd (dmul (size_r size) (dadd (dmul (point_y (f2 M)) q) (dmul (point_y (f3 M)) r)))
                        (point_y origin)
      in \<lparr>point_x = pixelX, point_y = pixelY\<rparr>)"

definition pointy_layout_double :: "real \<Rightarrow> Point \<Rightarrow> Layout" where
  "pointy_layout_double sz c =
     \<lparr>orientation = HEX_CONSTANTS_orientation_double,
      hex_size = \<lparr>size_q = sz, size_r = sz\<rparr>,
      origin = c\<rparr>"

section \<open>The rectangle-bounded variant (script.js)\<close>

subsection \<open>Rendering of integers in template strings\<close>

definition digit_char :: "nat \<Rightarrow> char" where
  "digit_char n = ''0123456789'' ! n"

fun string_of_nat :: "nat \<Rightarrow> string" where
  "string_of_nat n =
     (if n < 10 then [digit_char n] else string_of_nat (n div 10) @ [digit_char (n mod 10)])"

declare string_of_nat.simps [simp del]

definition string_of_int :: "int \<Rightarrow> string" where
  "string_of_int i = (if i < 0 then CHR ''-'' # string_of_nat (nat (- i)) else string_of_nat (nat i))"

subsection \<open>Hex\<close>

text \<open>
  The class \<open>Hex\<close> of script.js, named \<open>GridHex\<close> here to keep it apart from the one
  above.  Its constructor throws when the components do not sum to 0.
\<close>

datatype error = Error string

record GridHex =
  ghex_q :: int
  ghex_r :: int
  ghex_s :: int
  ghex_id :: string

definition hex_id :: "int \<Rightarrow> int \<Rightarrow> int \<Rightarrow> string" where
  "hex_id q r s = string_of_int q @ '','' @ string_of_int r @ '','' @ string_of_int s"

definition GridHex_new :: "int \<Rightarrow> int \<Rightarrow> int \<Rightarrow> error + GridHex" where
  "GridHex_new q r s =
     (if q + r + s \<noteq> 0
      then Inl (Error (''Hex coordinates must sum to 0: q('' @ string_of_int q @ '') + r(''
                       @ string_of_int r @ '') + s('' @ string_of_int s @ '') = ''
                       @ string_of_int (q + r + s)))
      else Inr \<lparr>ghex_q = q, ghex_r = r, ghex_s = s, ghex_id = hex_id q r s\<rparr>)"

definition toAxial :: "GridHex \<Rightarrow> int \<times> int" where
  "toAxial h = (ghex_q h, ghex_r h)"

definition toPixel :: "GridHex \<Rightarrow> string \<Rightarrow> real \<Rightarrow> Point \<Rightarrow> Point" where
  "toPixel h orient sz org =
     (let (x, y) =
        (if orient = ''flat-top''
         then (sz * (3 / 2 * of_int (ghex_q h)),
               sz * (sqrt 3 / 2 * of_int (ghex_q h) + sqrt 3 * of_int (ghex_r h)))
         else (sz * (sqrt 3 * of_int (ghex_q h) + sqrt 3 / 2 * of_int (ghex_r h)),
               sz * (3 / 2 * of_int (ghex_r h))))
      in \<lparr>point_x = x + point_x org, point_y = y + point_y org\<rparr>)"

subsection \<open>HexGrid\<close>

record HexGrid =
  hexSize :: real
  hexOrientation :: string
  hexes :: "string \<rightharpoonup> GridHex"
  gridCenter :: Point


text \<open>A \<open>for\<close> loop over a list of values whose body may throw; the first throw ends it.\<close>

fun for_each :: "('a \<Rightarrow> 's \<Rightarrow> error + 's) \<Rightarrow> 'a list \<Rightarrow> 's \<Rightarrow> error + 's" where
  "for_each body [] st = Inr st"
| "for_each body (v # vs) st =
     (case body v st of Inl e \<Rightarrow> Inl e | Inr st' \<Rightarrow> for_each body vs st')"

text \<open>The body of the inner loop of \<open>generateGrid\<close>, the same in both orientations.\<close>

definition sweep_cell :: "real \<Rightarrow> real \<Rightarrow> int \<Rightarrow> int \<Rightarrow> HexGrid \<Rightarrow> error + HexGrid" where
  "sweep_cell width height q r g =
     (let s = - q - r
      in case GridHex_new q r s of
           Inl e \<Rightarrow> Inl e
         | Inr hex \<Rightarrow>
             let pixel = toPixel hex (hexOrientation g) (hexSize g) (gridCenter g)
             in if point_x pixel > - hexSize g * 2 \<and> point_x pixel < width + hexSize g * 2 \<and>
                   point_y pixel > - hexSize g * 2 \<and> point_y pixel < height + hexSize g * 2
                then Inr (g\<lparr>hexes := (hexes g)(ghex_id hex \<mapsto> hex)\<rparr>)
                else Inr g)"

definition sweep :: "real \<Rightarrow> real \<Rightarrow> int \<Rightarrow> int \<Rightarrow> int \<Rightarrow> int \<Rightarrow> HexGrid \<Rightarrow> error + HexGrid" where
  "sweep width height qMin qMax rMin rMax g =
     for_each (\<lambda>q. for_each (\<lambda>r. sweep_cell width height q r) [rMin .. rMax]) [qMin .. qMax] g"

text \<open>
  \<open>generateGrid\<close> divides by multiples of the cell size.  With a cell size of 0 the
  source continues with \<open>Infinity\<close> or \<open>NaN\<close> as loop bounds; the model returns \<open>None\<close>
  there.  For every other cell size the arithmetic is finite and the result is either the
  error thrown by the constructor of a hex or the grid.
\<close>

definition generateGrid :: "real \<Rightarrow> real \<Rightarrow> HexGrid \<Rightarrow> (error + HexGrid) option" where
  "generateGrid width height g =
     (if hexSize g = 0 then None
      else
        let g0 = g\<lparr>hexes := Map.empty\<rparr>
        in if hexOrientation g0 = ''flat-top''
           then
             let qMax = \<lceil>width / (hexSize g0 * 1.5)\<rceil> + 1;
                 rMax = \<lceil>height / (hexSize g0 * sqrt 3)\<rceil> + 1;
                 qMin = - qMax;
                 rMin = - rMax;
                 g1 = g0\<lparr>gridCenter := \<lparr>point_x = width / 2, point_y = height / 2\<rparr>\<rparr>
             in Some (sweep width height qMin qMax rMin rMax g1)
           else
             let qMax = \<lceil>width / (hexSize g0 * sqrt 3)\<rceil> + 1;
                 rMax = \<lceil>height / (hexSize g0 * 1.5)\<rceil> + 1;
                 qMin = - qMax;
                 rMin = - rMax;
                 g1 = g0\<lparr>gridCenter := \<lparr>point_x = width / 2, point_y = height / 2\<rparr>\<rparr>
             in Some (sweep width height qMin qMax rMin rMax g1))"

subsection \<open>GameRenderer\<close>

text \<open>
  Of the renderer the grid, the selected identity and the hex whose highlight is drawn
  are kept.  A template string is truthy unless it is empty.
\<close>

record GameRenderer =
  hexGrid :: HexGrid
  highlightGraphic :: "GridHex option"
  selectedHexId :: "string option"

definition drawHighlight :: "GridHex \<Rightarrow> GameRenderer \<Rightarrow> GameRenderer" where
  "drawHighlight hex rd = rd\<lparr>highlightGraphic := Some hex, selectedHexId := Some (ghex_id hex)\<rparr>"

definition drawGrid :: "GameRenderer \<Rightarrow> GameRenderer" where
  "drawGrid rd =
     (let rd1 = rd\<lparr>highlightGraphic := None\<rparr>
      in case selectedHexId rd1 of
           None \<Rightarrow> rd1
         | Some i \<Rightarrow>
             if i = [] then rd1
             else (case hexes (hexGrid rd1) i of
                     Some hex \<Rightarrow> drawHighlight hex rd1
                   | None \<Rightarrow> rd1\<lparr>selectedHexId := None\<rparr>))"

definition GameRenderer_onHexClick :: "GridHex option \<Rightarrow> GameRenderer \<Rightarrow> GameRenderer" where
  "GameRenderer_onHexClick hex rd = (case hex of None \<Rightarrow> rd | Some h \<Rightarrow> drawHighlight h rd)"

definition resize :: "real \<Rightarrow> real \<Rightarrow> GameRenderer \<Rightarrow> (error + GameRenderer) option" where
  "resize innerWidth innerHeight rd =
     (case generateGrid innerWidth innerHeight (hexGrid rd) of
        None \<Rightarrow> None
      | Some (Inl e) \<Rightarrow> Some (Inl e)
      | Some (Inr g) \<Rightarrow> Some (Inr (drawGrid (rd\<lparr>hexGrid := g\<rparr>))))"

section \<open>Vocabulary of the specification\<close>

text \<open>A cube coordinate is at rest when its three components sum to 0.\<close>

definition zero_sum :: "Hex \<Rightarrow> bool" where
  "zero_sum h \<longleftrightarrow> hex_q h + hex_r h + hex_s h = 0"

text \<open>
  Cube rounding as the specification words it: the three rounding errors, the
  recomputation of one axis from the zero-sum constraint of the other two roundings, and
  the chain ``if \<open>\<Delta>q\<close> is largest recompute q, else if \<open>\<Delta>r\<close> is largest recompute r,
  else recompute s''.  The words leave open whether an error that equals another one
  still counts as largest; both readings are kept.
\<close>

datatype axis = AxisQ | AxisR | AxisS

datatype reading = TieCounts | TieDoesNotCount

definition delta_q :: "Hex \<Rightarrow> real" where
  "delta_q hex = \<bar>Math_round (hex_q hex) - hex_q hex\<bar>"

definition delta_r :: "Hex \<Rightarrow> real" where
  "delta_r hex = \<bar>Math_round (hex_r hex) - hex_r hex\<bar>"

definition delta_s :: "Hex \<Rightarrow> real" where
  "delta_s hex = \<bar>Math_round (hex_s hex) - hex_s hex\<bar>"

definition recompute :: "axis \<Rightarrow> Hex \<Rightarrow> Hex" where
  "recompute a hex =
     (let rq = Math_round (hex_q hex); rr = Math_round (hex_r hex); rs = Math_round (hex_s hex)
      in case a of
           AxisQ \<Rightarrow> \<lparr>hex_q = - rr - rs, hex_r = rr, hex_s = rs\<rparr>
         | AxisR \<Rightarrow> \<lparr>hex_q = rq, hex_r = - rq - rs, hex_s = rs\<rparr>
         | AxisS \<Rightarrow> \<lparr>hex_q = rq, hex_r = rr, hex_s = - rq - rr\<rparr>)"

fun is_largest :: "reading \<Rightarrow> real \<Rightarrow> real \<Rightarrow> real \<Rightarrow> bool" where
  "is_largest TieCounts d d1 d2 \<longleftrightarrow> d1 \<le> d \<and> d2 \<le> d"
| "is_largest TieDoesNotCount d d1 d2 \<longleftrightarrow> d1 < d \<and> d2 < d"

definition cube_round_q_r_s :: "reading \<Rightarrow> Hex \<Rightarrow> Hex" where
  "cube_round_q_r_s rd hex =
     (if is_largest rd (delta_q hex) (delta_r hex) (delta_s hex) then recompute AxisQ hex
      else if is_largest rd (delta_r hex) (delta_q hex) (delta_s hex) then recompute AxisR hex
      else recompute AxisS hex)"

text \<open>
  The same rule with the opposite priority among equal largest errors: the axis is the
  last one, in the order q, r, s, whose error is at least the two others.
\<close>

definition cube_round_s_r_q :: "Hex \<Rightarrow> Hex" where
  "cube_round_s_r_q hex =
     (if is_largest TieCounts (delta_s hex) (delta_q hex) (delta_r hex) then recompute AxisS hex
      else if is_largest TieCounts (delta_r hex) (delta_q hex) (delta_s hex) then recompute AxisR hex
      else recompute AxisQ hex)"

text \<open>
  An integer cube coordinate as a \<open>Hex\<close>, and the hexagonal disk of radius \<open>R\<close>: the
  zero-sum integer coordinates none of whose components exceeds \<open>R\<close> in absolute value.
\<close>

definition cube :: "int \<Rightarrow> int \<Rightarrow> int \<Rightarrow> Hex" where
  "cube q r s = \<lparr>hex_q = of_int q, hex_r = of_int r, hex_s = of_int s\<rparr>"

definition disk :: "int \<Rightarrow> Hex set" where
  "disk R = {cube q r s | q r s. q + r + s = 0 \<and> max \<bar>q\<bar> (max \<bar>r\<bar> \<bar>s\<bar>) \<le> R}"

text \<open>
  The selection of the radius-bounded variant is kept in two variables that are set and
  cleared together.  A click finds no match when the converted coordinate is not an element
  of \<open>gameHexes\<close> (or is not finite).
\<close>

definition selection_consistent :: "State \<Rightarrow> bool" where
  "selection_consistent st \<longleftrightarrow> (selectedHexGraphics st \<longleftrightarrow> selectedHex st \<noteq> None)"

definition no_match :: "Point \<Rightarrow> State \<Rightarrow> bool" where
  "no_match clickPoint st =
     (case pixel_to_hex clickPoint (pointy_layout (currentHexSize st) (currentScreenCenter st)) of
        None \<Rightarrow> True
      | Some c \<Rightarrow> c \<notin> set (gameHexes st))"

text \<open>
  A run of the radius-bounded variant: the page is laid out for a viewport of 800 by 600,
  the centre is clicked, and the viewport is then resized to a width of 0.
\<close>

definition scenario_grid :: State where
  "scenario_grid = onWindowResize 800 600 initial_State"

definition scenario_selected :: State where
  "scenario_selected = onHexClick \<lparr>point_x = 400, point_y = 300\<rparr> scenario_grid"

definition scenario_collapsed :: State where
  "scenario_collapsed = onWindowResize 0 600 scenario_selected"

text \<open>
  The rectangle-bounded enumeration in the words of the specification: the candidate with
  axial components \<open>q\<close> and \<open>r\<close>, the bounds of the swept range, the pixel centre of a
  candidate under the grid centre that \<open>generateGrid\<close> sets, and the viewport expanded by
  two cell sizes on each side.
\<close>

definition candidate :: "int \<Rightarrow> int \<Rightarrow> GridHex" where
  "candidate q r = \<lparr>ghex_q = q, ghex_r = r, ghex_s = - q - r, ghex_id = hex_id q r (- q - r)\<rparr>"

definition in_expanded_viewport :: "real \<Rightarrow> real \<Rightarrow> real \<Rightarrow> Point \<Rightarrow> bool" where
  "in_expanded_viewport W H sz p \<longleftrightarrow>
     - 2 * sz < point_x p \<and> point_x p < W + 2 * sz \<and>
     - 2 * sz < point_y p \<and> point_y p < H + 2 * sz"

definition sweep_qMax :: "real \<Rightarrow> HexGrid \<Rightarrow> int" where
  "sweep_qMax W g =
     (if hexOrientation g = ''flat-top'' then \<lceil>W / (hexSize g * 1.5)\<rceil> + 1
      else \<lceil>W / (hexSize g * sqrt 3)\<rceil> + 1)"

definition sweep_rMax :: "real \<Rightarrow> HexGrid \<Rightarrow> int" where
  "sweep_rMax H g =
     (if hexOrientation g = ''flat-top'' then \<lceil>H / (hexSize g * sqrt 3)\<rceil> + 1
      else \<lceil>H / (hexSize g * 1.5)\<rceil> + 1)"


text \<open>
  The entries that the sweep stores, in the order of the loops: one per candidate that
  passes the test of the loop body.  A grid is keyed when every stored hex sits under its
  own identity.
\<close>

definition admit :: "real \<Rightarrow> real \<Rightarrow> HexGrid \<Rightarrow> int \<Rightarrow> int \<Rightarrow> bool" where
  "admit W H g q r \<longleftrightarrow>
     in_expanded_viewport W H (hexSize g)
       (toPixel (candidate q r) (hexOrientation g) (hexSize g) (gridCenter g))"

definition entries :: "real \<Rightarrow> real \<Rightarrow> HexGrid \<Rightarrow> int \<Rightarrow> int list \<Rightarrow> (string \<times> GridHex) list" where
  "entries W H g q rs = map (\<lambda>r. (hex_id q r (- q - r), candidate q r)) (filter (admit W H g q) rs)"

definition all_entries :: "real \<Rightarrow> real \<Rightarrow> HexGrid \<Rightarrow> int list \<Rightarrow> int list \<Rightarrow> (string \<times> GridHex) list" where
  "all_entries W H g qs rs = concat (map (\<lambda>q. entries W H g q rs) qs)"

definition keyed :: "HexGrid \<Rightarrow> bool" where
  "keyed g \<longleftrightarrow> (\<forall>k h. hexes g k = Some h \<longrightarrow> ghex_id h = k)"

section \<open>Properties\<close>

lemma SQRT3_sq [simp]: "SQRT3 * SQRT3 = 3"
  by (simp add: SQRT3_def)

subsection \<open>The pixel centre of a hex\<close>

lemma pow2_powr: "pow2 k = 2 powr of_int k"
  by (simp add: pow2_def powr_int)

lemma pow2_pos: "0 < pow2 k"
  by (simp add: pow2_def)

lemma round_even_near: "\<bar>n - of_int m\<bar> < 1 / 2 \<Longrightarrow> round_even n = m"
proof -
  assume a: "\<bar>n - of_int m\<bar> < 1 / 2"
  have "\<lfloor>n\<rfloor> = m \<or> \<lfloor>n\<rfloor> = m - 1" using a by linarith
  then show ?thesis
  proof
    assume f: "\<lfloor>n\<rfloor> = m"
    then have "n - of_int m < 1 / 2" using a by linarith
    then show ?thesis by (simp add: round_even_def f)
  next
    assume f: "\<lfloor>n\<rfloor> = m - 1"
    have "n - (of_int m - 1) > 1 / 2" using a by linarith
    then show ?thesis by (simp add: round_even_def f Let_def)
  qed
qed

lemma round_even_tie_below: "n = of_int m + 1 / 2 \<Longrightarrow> even m \<Longrightarrow> round_even n = m"
proof -
  assume n: "n = of_int m + 1 / 2" and e: "even m"
  have f: "\<lfloor>n\<rfloor> = m" unfolding n by linarith
  show ?thesis using e by (simp add: round_even_def f Let_def) (simp add: n)
qed

lemma round_even_tie_above: "n = of_int m - 1 / 2 \<Longrightarrow> even m \<Longrightarrow> round_even n = m"
proof -
  assume n: "n = of_int m - 1 / 2" and e: "even m"
  have f: "\<lfloor>n\<rfloor> = m - 1" unfolding n by linarith
  have "odd (m - 1)" using e by simp
  then show ?thesis by (simp add: round_even_def f Let_def) (simp add: n)
qed

lemma double_eqI:
  assumes "pow2 e \<le> \<bar>v\<bar>" "\<bar>v\<bar> < pow2 (e + 1)"
    and "round_even (v / pow2 (e - 52)) = m"
  shows "double v = pow2 (e - 52) * of_int m"
proof -
  have nz: "v \<noteq> 0" using assms(1) pow2_pos [of e] by auto
  then have "0 < \<bar>v\<bar>" by simp
  then have "\<lfloor>log 2 \<bar>v\<bar>\<rfloor> = e"
    using assms(1,2) by (simp add: floor_log_eq_powr_iff pow2_powr)
  then show ?thesis using nz assms(3) by (simp add: double_def Let_def)
qed

text \<open>
  The double nearest to \<open>\<surd>3\<close> and the roundings met on the way from the hex
  \<open>(-3, 4, -1)\<close> to its pixel centre under cell size 50 and origin \<open>(400, 300)\<close>.
\<close>

lemma SQRT3_double_eq: "SQRT3_double = 7800463371553962 / 2 ^ 52"
proof -
  have lo: "(7800463371553962 - 1 / 2) / 2 ^ 52 < sqrt 3"
    by (rule real_less_rsqrt) (simp add: power2_eq_square)
  have hi: "sqrt 3 < (7800463371553962 + 1 / 2) / 2 ^ 52"
    by (rule real_less_lsqrt) (simp_all add: power2_eq_square)
  define t where "t = sqrt 3 * 2 ^ 52"
  have t: "sqrt 3 / pow2 (0 - 52) = t" by (simp add: pow2_def t_def)
  have "7800463371553962 - 1 / 2 < t" "t < 7800463371553962 + 1 / 2"
    using lo hi by (simp_all add: t_def field_simps)
  then have "\<bar>t - of_int 7800463371553962\<bar> < 1 / 2"
    by (simp only: of_int_numeral)
  then have r: "round_even (sqrt 3 / pow2 (0 - 52)) = 7800463371553962"
    unfolding t by (rule round_even_near)
  have "pow2 0 \<le> \<bar>sqrt 3\<bar>" "\<bar>sqrt 3\<bar> < pow2 (0 + 1)"
    using lo hi by (simp_all add: pow2_def)
  then have "double (sqrt 3) = pow2 (0 - 52) * of_int 7800463371553962"
    using r by (rule double_eqI)
  then show ?thesis by (simp add: SQRT3_double_def pow2_def)
qed

lemma double_trace:
  "double (7800463371553962 / 2 ^ 52 / 2) = 7800463371553962 / 2 ^ 53"
  "double (7800463371553962 / 2 ^ 52 * (- 3)) = - 5850347528665472 / 2 ^ 50"
  "double (7800463371553962 / 2 ^ 53 * 4) = 7800463371553962 / 2 ^ 51"
  "double (- 5850347528665472 / 2 ^ 50 + 7800463371553962 / 2 ^ 51) = - 7800463371553964 / 2 ^ 52"
  "double (50 * (- 7800463371553964 / 2 ^ 52)) = - 6094112009026534 / 2 ^ 46"
  "double (- 6094112009026534 / 2 ^ 46 + 400) = 5513346415509766 / 2 ^ 44"
  "double (- 6094112009026534 / 2 ^ 46 + 300) = 7508255622136333 / 2 ^ 45"
  "double (5513346415509766 / 2 ^ 44 - 400) = - 6094112009026536 / 2 ^ 46"
  "double (7508255622136333 / 2 ^ 45 - 300) = - 6094112009026534 / 2 ^ 46"
proof -
  have "double (7800463371553962 / 2 ^ 52 / 2) = pow2 (- 1 - 52) * of_int 7800463371553962"
    by (intro double_eqI round_even_near) (simp_all add: pow2_def)
  then show "double (7800463371553962 / 2 ^ 52 / 2) = 7800463371553962 / 2 ^ 53"
    by (simp add: pow2_def)
  have "double (7800463371553962 / 2 ^ 52 * (- 3)) = pow2 (2 - 52) * of_int (- 5850347528665472)"
    by (intro double_eqI round_even_tie_below) (simp_all add: pow2_def)
  then show "double (7800463371553962 / 2 ^ 52 * (- 3)) = - 5850347528665472 / 2 ^ 50"
    by (simp add: pow2_def)
  have "double (7800463371553962 / 2 ^ 53 * 4) = pow2 (1 - 52) * of_int 7800463371553962"
    by (intro double_eqI round_even_near) (simp_all add: pow2_def)
  then show "double (7800463371553962 / 2 ^ 53 * 4) = 7800463371553962 / 2 ^ 51"
    by (simp add: pow2_def)
  have "double (- 5850347528665472 / 2 ^ 50 + 7800463371553962 / 2 ^ 51)
      = pow2 (0 - 52) * of_int (- 7800463371553964)"
    by (intro double_eqI round_even_near) (simp_all add: pow2_def)
  then show "double (- 5850347528665472 / 2 ^ 50 + 7800463371553962 / 2 ^ 51) = - 7800463371553964 / 2 ^ 52"
    by (simp add: pow2_def)
  have "double (50 * (- 7800463371553964 / 2 ^ 52)) = pow2 (6 - 52) * of_int (- 6094112009026534)"
    by (intro double_eqI round_even_near) (simp_all add: pow2_def)
  then show "double (50 * (- 7800463371553964 / 2 ^ 52)) = - 6094112009026534 / 2 ^ 46"
    by (simp add: pow2_def)
  have "double (- 6094112009026534 / 2 ^ 46 + 400) = pow2 (8 - 52) * of_int 5513346415509766"
    by (intro double_eqI round_even_tie_below) (simp_all add: pow2_def)
  then show "double (- 6094112009026534 / 2 ^ 46 + 400) = 5513346415509766 / 2 ^ 44"
    by (simp add: pow2_def)
  have "double (- 6094112009026534 / 2 ^ 46 + 300) = pow2 (7 - 52) * of_int 7508255622136333"
    by (intro double_eqI round_even_near) (simp_all add: pow2_def)
  then show "double (- 6094112009026534 / 2 ^ 46 + 300) = 7508255622136333 / 2 ^ 45"
    by (simp add: pow2_def)
  have "double (5513346415509766 / 2 ^ 44 - 400) = pow2 (6 - 52) * of_int (- 6094112009026536)"
    by (intro double_eqI round_even_near) (simp_all add: pow2_def)
  then show "double (5513346415509766 / 2 ^ 44 - 400) = - 6094112009026536 / 2 ^ 46"
    by (simp add: pow2_def)
  have "double (7508255622136333 / 2 ^ 45 - 300) = pow2 (6 - 52) * of_int (- 6094112009026534)"
    by (intro double_eqI round_even_near) (simp_all add: pow2_def)
  then show "double (7508255622136333 / 2 ^ 45 - 300) = - 6094112009026534 / 2 ^ 46"
    by (simp add: pow2_def)
qed


lemma hex_to_pixel_double_example:
  "hex_to_pixel_double \<lparr>hex_q = - 3, hex_r = 4, hex_s = - 1\<rparr>
       (pointy_layout_double 50 \<lparr>point_x = 400, point_y = 300\<rparr>)
     = \<lparr>point_x = 5513346415509766 / 2 ^ 44, point_y = 7508255622136333 / 2 ^ 45\<rparr>"
  by (simp only: hex_to_pixel_double_def pointy_layout_double_def
      HEX_CONSTANTS_orientation_double_def Let_def Layout.select_convs Orientation.select_convs
      Point.select_convs Size.select_convs Hex.select_convs dadd_def dmul_def ddiv_def
      SQRT3_double_eq double_trace)

text \<open>
  Claim C3, as stated: the x and y coefficients of \<open>hex_to_pixel\<close> are equal, hence for
  every hex and every layout with equal size components
  \<open>hex_to_pixel(h, layout).x - origin.x == hex_to_pixel(h, layout).y - origin.y\<close>.  The
  coefficients are equal, but the equality of the two differences fails in doubles.  For
  the hex \<open>(-3, 4, -1)\<close>, cell size 50 and origin \<open>(400, 300)\<close> the common offset is
  \<open>-86.60254037844388\<close>; adding 400 rounds to \<open>313.3974596215561\<close>, adding 300 gives
  \<open>213.39745962155612\<close> exactly, and the two differences are \<open>-86.6025403784439\<close> and
  \<open>-86.60254037844388\<close>.
\<close>

theorem diagonal_in_doubles_counterexample:
  "dsub (point_x (hex_to_pixel_double \<lparr>hex_q = - 3, hex_r = 4, hex_s = - 1\<rparr>
            (pointy_layout_double 50 \<lparr>point_x = 400, point_y = 300\<rparr>))) 400
     = - 6094112009026536 / 2 ^ 46
   \<and> dsub (point_y (hex_to_pixel_double \<lparr>hex_q = - 3, hex_r = 4, hex_s = - 1\<rparr>
            (pointy_layout_double 50 \<lparr>point_x = 400, point_y = 300\<rparr>))) 300
     = - 6094112009026534 / 2 ^ 46
   \<and> dsub (point_x (hex_to_pixel_double \<lparr>hex_q = - 3, hex_r = 4, hex_s = - 1\<rparr>
            (pointy_layout_double 50 \<lparr>point_x = 400, point_y = 300\<rparr>))) 400
     \<noteq> dsub (point_y (hex_to_pixel_double \<lparr>hex_q = - 3, hex_r = 4, hex_s = - 1\<rparr>
            (pointy_layout_double 50 \<lparr>point_x = 400, point_y = 300\<rparr>))) 300"
proof -
  have x: "dsub (point_x (hex_to_pixel_double \<lparr>hex_q = - 3, hex_r = 4, hex_s = - 1\<rparr>
            (pointy_layout_double 50 \<lparr>point_x = 400, point_y = 300\<rparr>))) 400
     = - 6094112009026536 / 2 ^ 46"
    by (simp only: hex_to_pixel_double_example Point.select_convs dsub_def double_trace)
  have y: "dsub (point_y (hex_to_pixel_double \<lparr>hex_q = - 3, hex_r = 4, hex_s = - 1\<rparr>
            (pointy_layout_double 50 \<lparr>point_x = 400, point_y = 300\<rparr>))) 300
     = - 6094112009026534 / 2 ^ 46"
    by (simp only: hex_to_pixel_double_example Point.select_convs dsub_def double_trace)
  have ne: "(- 6094112009026536 / 2 ^ 46 :: real) \<noteq> - 6094112009026534 / 2 ^ 46"
    by simp
  from x y ne show ?thesis by (simp only: simp_thms)
qed

text \<open>
  Claim C3, amended: \<open>hex_to_pixel\<close> computes the x output with the coefficients
  \<open>(f0.x, f1.x) = (\<surd>3, \<surd>3/2)\<close> and the y output with \<open>(f2.y, f3.y) = (\<surd>3, \<surd>3/2)\<close>, which
  are equal; hence for every hex and every layout with equal size components both outputs
  are one and the same offset \<open>size \<cdot> (\<surd>3 \<cdot> q + \<surd>3/2 \<cdot> r)\<close>, added to \<open>origin.x\<close> for x and
  to \<open>origin.y\<close> for y.  This holds of the exact values and of the doubles alike.  In
  exact arithmetic the two differences from the origin are therefore equal and every centre
  lies on one diagonal line through the origin.
\<close>

theorem hex_to_pixel_same_offset:
  assumes "orientation layout = HEX_CONSTANTS_orientation"
    and "size_q (hex_size layout) = size_r (hex_size layout)"
    and "orientation dlayout = HEX_CONSTANTS_orientation_double"
    and "size_q (hex_size dlayout) = size_r (hex_size dlayout)"
  shows "point_x (f0 (orientation layout)) = SQRT3 \<and> point_x (f1 (orientation layout)) = SQRT3 / 2
       \<and> point_y (f2 (orientation layout)) = SQRT3 \<and> point_y (f3 (orientation layout)) = SQRT3 / 2
       \<and> hex_to_pixel h layout =
           \<lparr>point_x = size_q (hex_size layout) * (SQRT3 * hex_q h + SQRT3 / 2 * hex_r h)
                       + point_x (origin layout),
            point_y = size_q (hex_size layout) * (SQRT3 * hex_q h + SQRT3 / 2 * hex_r h)
                       + point_y (origin layout)\<rparr>
       \<and> point_x (hex_to_pixel h layout) - point_x (origin layout)
         = point_y (hex_to_pixel h layout) - point_y (origin layout)
       \<and> point_x (f0 (orientation dlayout)) = SQRT3_double
       \<and> point_x (f1 (orientation dlayout)) = ddiv SQRT3_double 2
       \<and> point_y (f2 (orientation dlayout)) = SQRT3_double
       \<and> point_y (f3 (orientation dlayout)) = ddiv SQRT3_double 2
       \<and> hex_to_pixel_double h dlayout =
           \<lparr>point_x = dadd (dmul (size_q (hex_size dlayout))
                               (dadd (dmul SQRT3_double (hex_q h))
                                     (dmul (ddiv SQRT3_double 2) (hex_r h))))
                            (point_x (origin dlayout)),
            point_y = dadd (dmul (size_q (hex_size dlayout))
                               (dadd (dmul SQRT3_double (hex_q h))
                                     (dmul (ddiv SQRT3_double 2) (hex_r h))))
                            (point_y (origin dlayout))\<rparr>"
proof -
  have r: "hex_to_pixel h layout =
           \<lparr>point_x = size_q (hex_size layout) * (SQRT3 * hex_q h + SQRT3 / 2 * hex_r h)
                       + point_x (origin layout),
            point_y = size_q (hex_size layout) * (SQRT3 * hex_q h + SQRT3 / 2 * hex_r h)
                       + point_y (origin layout)\<rparr>"
    using assms(1,2) by (simp add: hex_to_pixel_def HEX_CONSTANTS_orientation_def Let_def)
  have c: "point_x (f0 (orientation layout)) = SQRT3" "point_x (f1 (orientation layout)) = SQRT3 / 2"
    "point_y (f2 (orientation layout)) = SQRT3" "point_y (f3 (orientation layout)) = SQRT3 / 2"
    using assms(1) by (simp_all add: HEX_CONSTANTS_orientation_def)
  have e: "point_x (hex_to_pixel h layout) - point_x (origin layout)
         = point_y (hex_to_pixel h layout) - point_y (origin layout)"
    by (simp add: r)
  have dc: "point_x (f0 (orientation dlayout)) = SQRT3_double"
    "point_x (f1 (orientation dlayout)) = ddiv SQRT3_double 2"
    "point_y (f2 (orientation dlayout)) = SQRT3_double"
    "point_y (f3 (orientation dlayout)) = ddiv SQRT3_double 2"
    using assms(3) by (simp_all add: HEX_CONSTANTS_orientation_double_def)
  have d: "hex_to_pixel_double h dlayout =
           \<lparr>point_x = dadd (dmul (size_q (hex_size dlayout))
                               (dadd (dmul SQRT3_double (hex_q h))
                                     (dmul (ddiv SQRT3_double 2) (hex_r h))))
                            (point_x (origin dlayout)),
            point_y = dadd (dmul (size_q (hex_size dlayout))
                               (dadd (dmul SQRT3_double (hex_q h))
                                     (dmul (ddiv SQRT3_double 2) (hex_r h))))
                            (point_y (origin dlayout))\<rparr>"
    unfolding hex_to_pixel_double_def Let_def dc assms(4) [symmetric] by (rule refl)
  from c r e dc d show ?thesis by (intro conjI)
qed

theorem hex_to_pixel_same_offset_witness:
  "orientation (pointy_layout 50 \<lparr>point_x = 400, point_y = 300\<rparr>) = HEX_CONSTANTS_orientation
   \<and> size_q (hex_size (pointy_layout 50 \<lparr>point_x = 400, point_y = 300\<rparr>))
     = size_r (hex_size (pointy_layout 50 \<lparr>point_x = 400, point_y = 300\<rparr>))
   \<and> orientation (pointy_layout_double 50 \<lparr>point_x = 400, point_y = 300\<rparr>)
     = HEX_CONSTANTS_orientation_double
   \<and> size_q (hex_size (pointy_layout_double 50 \<lparr>point_x = 400, point_y = 300\<rparr>))
     = size_r (hex_size (pointy_layout_double 50 \<lparr>point_x = 400, point_y = 300\<rparr>))
   \<and> hex_to_pixel \<lparr>hex_q = - 3, hex_r = 4, hex_s = - 1\<rparr>
         (pointy_layout 50 \<lparr>point_x = 400, point_y = 300\<rparr>)
       = \<lparr>point_x = 50 * (SQRT3 * (- 3) + SQRT3 / 2 * 4) + 400,
          point_y = 50 * (SQRT3 * (- 3) + SQRT3 / 2 * 4) + 300\<rparr>
   \<and> hex_to_pixel_double \<lparr>hex_q = - 3, hex_r = 4, hex_s = - 1\<rparr>
         (pointy_layout_double 50 \<lparr>point_x = 400, point_y = 300\<rparr>)
       = \<lparr>point_x = dadd (dmul 50 (dadd (dmul SQRT3_double (- 3)) (dmul (ddiv SQRT3_double 2) 4))) 400,
          point_y = dadd (dmul 50 (dadd (dmul SQRT3_double (- 3)) (dmul (ddiv SQRT3_double 2) 4))) 300\<rparr>"
proof -
  have h: "orientation (pointy_layout 50 \<lparr>point_x = 400, point_y = 300\<rparr>) = HEX_CONSTANTS_orientation"
    "size_q (hex_size (pointy_layout 50 \<lparr>point_x = 400, point_y = 300\<rparr>))
     = size_r (hex_size (pointy_layout 50 \<lparr>point_x = 400, point_y = 300\<rparr>))"
    "orientation (pointy_layout_double 50 \<lparr>point_x = 400, point_y = 300\<rparr>)
     = HEX_CONSTANTS_orientation_double"
    "size_q (hex_size (pointy_layout_double 50 \<lparr>point_x = 400, point_y = 300\<rparr>))
     = size_r (hex_size (pointy_layout_double 50 \<lparr>point_x = 400, point_y = 300\<rparr>))"
    by (simp_all add: pointy_layout_def pointy_layout_double_def)
  from h hex_to_pixel_same_offset [OF h, of "\<lparr>hex_q = - 3, hex_r = 4, hex_s = - 1\<rparr>"]
  show ?thesis
    by (simp only: pointy_layout_def pointy_layout_double_def Layout.select_convs
        Size.select_convs Hex.select_convs Point.select_convs simp_thms)
qed

subsection \<open>Rounding and the constructor\<close>

lemma Math_round_of_int [simp]: "Math_round (of_int n) = of_int n"
  by (simp add: Math_round_def)

lemma Math_round_0 [simp]: "Math_round 0 = 0"
  using Math_round_of_int [of 0] by simp

lemma Math_round_Ints: "Math_round v \<in> \<int>"
  by (simp add: Math_round_def)

lemma Math_round_Ints_eq: "v \<in> \<int> \<Longrightarrow> Math_round v = v"
  by (auto simp add: Ints_def)

lemma Hex_new_zero_sum:
  "a + b + c = 0 \<Longrightarrow> Hex_new (Some a) (Some b) (Some c) = \<lparr>hex_q = a, hex_r = b, hex_s = c\<rparr>"
  by (simp add: Hex_new_def)

lemma Hex_new_Ints:
  assumes "a \<in> \<int>" "b \<in> \<int>" "c \<in> \<int>"
  shows "Hex_new (Some a) (Some b) (Some c) =
     (if a + b + c = 0 then \<lparr>hex_q = a, hex_r = b, hex_s = c\<rparr>
      else \<lparr>hex_q = a, hex_r = b, hex_s = - a - b\<rparr>)"
proof -
  have "a + b + c \<in> \<int>" using assms by simp
  then have "Math_round (a + b + c) = a + b + c" by (rule Math_round_Ints_eq)
  then show ?thesis by (simp add: Hex_new_def)
qed

text \<open>
  The constructor call that ends \<open>hex_round\<close> never corrects anything, since the
  recomputed triple sums to 0; the result is one of the three recomputations.
\<close>

lemma hex_round_recompute:
  "hex_round hex =
     (if delta_q hex > delta_r hex \<and> delta_q hex > delta_s hex then recompute AxisQ hex
      else if delta_r hex > delta_s hex then recompute AxisR hex
      else recompute AxisS hex)"
  by (simp add: hex_round_def recompute_def delta_q_def delta_r_def delta_s_def Let_def
      Hex_new_zero_sum)

lemma hex_round_is_recompute: "\<exists>a. hex_round hex = recompute a hex"
  by (auto simp add: hex_round_recompute)

lemma zero_sum_recompute: "zero_sum (recompute a hex)"
  by (cases a) (simp_all add: recompute_def zero_sum_def Let_def)

lemma Ints_recompute:
  "hex_q (recompute a hex) \<in> \<int> \<and> hex_r (recompute a hex) \<in> \<int> \<and> hex_s (recompute a hex) \<in> \<int>"
  by (cases a) (simp_all add: recompute_def Let_def Math_round_Ints)

lemma Math_round_half: "Math_round (1 / 2) = 1" "Math_round (- 1) = - 1"
  by (simp_all add: Math_round_def)

text \<open>
  Claim C4, as stated: cube rounding recomputes the axis with the largest error, deciding in
  the order q, then r, then s, also where two errors are equal.  At the fractional cube
  \<open>(1/2, 1/2, -1)\<close> the errors are \<open>1/2\<close>, \<open>1/2\<close> and \<open>0\<close>.  If an error that ties for
  the largest counts as largest, the stated chain recomputes q and gives \<open>(0, 1, -1)\<close>; if
  it does not count, the chain falls through to s and gives \<open>(1, 1, -2)\<close>.  The code
  recomputes r and returns \<open>(1, 0, -1)\<close>, so it follows the stated chain under neither
  reading.
\<close>

theorem cube_round_q_r_s_counterexample:
  "hex_round \<lparr>hex_q = 1 / 2, hex_r = 1 / 2, hex_s = - 1\<rparr> = \<lparr>hex_q = 1, hex_r = 0, hex_s = - 1\<rparr>
   \<and> hex_round \<lparr>hex_q = 1 / 2, hex_r = 1 / 2, hex_s = - 1\<rparr>
       \<noteq> cube_round_q_r_s TieCounts \<lparr>hex_q = 1 / 2, hex_r = 1 / 2, hex_s = - 1\<rparr>
   \<and> hex_round \<lparr>hex_q = 1 / 2, hex_r = 1 / 2, hex_s = - 1\<rparr>
       \<noteq> cube_round_q_r_s TieDoesNotCount \<lparr>hex_q = 1 / 2, hex_r = 1 / 2, hex_s = - 1\<rparr>"
  by (simp add: hex_round_recompute cube_round_q_r_s_def recompute_def
      delta_q_def delta_r_def delta_s_def Math_round_half)

text \<open>
  Claim C4, amended: cube rounding rounds q, r and s to the nearest integer independently
  (a tie towards \<open>+\<infinity>\<close>) and recomputes exactly one axis from the zero-sum constraint of the
  other two roundings, an axis whose rounding error is at least the two others; among equal
  largest errors the later axis in the order q, r, s is recomputed.  So q is recomputed
  only when \<open>\<Delta>q\<close> exceeds both other errors, otherwise r when \<open>\<Delta>r\<close> exceeds \<open>\<Delta>s\<close>,
  otherwise s.
\<close>

theorem hex_round_later_axis:
  "hex_round hex = cube_round_s_r_q hex"
  by (auto simp add: hex_round_recompute cube_round_s_r_q_def)

text \<open>
  Claim C6.  A constructed coordinate sums to 0: the forgiving constructor, given
  integers, keeps a zero-sum triple and otherwise derives the third component from the
  first two; given two components it derives the missing one; \<open>add\<close> of two zero-sum
  coordinates is their component-wise sum and sums to 0; and the result of cube rounding
  is a zero-sum triple of integers, for every fractional input.  In the rectangle-bounded
  variant a coordinate that the strict constructor returns sums to 0 as well.
\<close>

theorem zero_sum_invariant:
  "(q \<in> \<int> \<and> r \<in> \<int> \<and> s \<in> \<int> \<longrightarrow>
      zero_sum (Hex_new (Some q) (Some r) (Some s)) \<and>
      Hex_new (Some q) (Some r) (Some s) =
        (if q + r + s = 0 then \<lparr>hex_q = q, hex_r = r, hex_s = s\<rparr>
         else \<lparr>hex_q = q, hex_r = r, hex_s = - q - r\<rparr>))
   \<and> zero_sum (Hex_new (Some q) (Some r) None)
   \<and> zero_sum (Hex_new (Some q) None (Some s))
   \<and> zero_sum (Hex_new None (Some r) (Some s))
   \<and> zero_sum (Hex_new (Some q) (Some r) (Some (- q - r)))
   \<and> (zero_sum hexA \<and> zero_sum hexB \<longrightarrow>
        zero_sum (Hex_add hexA hexB) \<and>
        Hex_add hexA hexB = \<lparr>hex_q = hex_q hexA + hex_q hexB, hex_r = hex_r hexA + hex_r hexB,
                             hex_s = hex_s hexA + hex_s hexB\<rparr>)
   \<and> zero_sum (hex_round hex)
   \<and> hex_q (hex_round hex) \<in> \<int> \<and> hex_r (hex_round hex) \<in> \<int> \<and> hex_s (hex_round hex) \<in> \<int>
   \<and> (GridHex_new gq gr gs = Inr gh \<longrightarrow> ghex_q gh + ghex_r gh + ghex_s gh = 0)"
proof -
  have c1: "q \<in> \<int> \<and> r \<in> \<int> \<and> s \<in> \<int> \<longrightarrow>
      zero_sum (Hex_new (Some q) (Some r) (Some s)) \<and>
      Hex_new (Some q) (Some r) (Some s) =
        (if q + r + s = 0 then \<lparr>hex_q = q, hex_r = r, hex_s = s\<rparr>
         else \<lparr>hex_q = q, hex_r = r, hex_s = - q - r\<rparr>)"
    by (simp add: Hex_new_Ints zero_sum_def)
  have c2: "zero_sum (Hex_new (Some q) (Some r) None)"
    "zero_sum (Hex_new (Some q) None (Some s))"
    "zero_sum (Hex_new None (Some r) (Some s))"
    "zero_sum (Hex_new (Some q) (Some r) (Some (- q - r)))"
    by (simp_all add: Hex_new_def zero_sum_def)
  have c3: "zero_sum hexA \<and> zero_sum hexB \<longrightarrow>
        zero_sum (Hex_add hexA hexB) \<and>
        Hex_add hexA hexB = \<lparr>hex_q = hex_q hexA + hex_q hexB, hex_r = hex_r hexA + hex_r hexB,
                             hex_s = hex_s hexA + hex_s hexB\<rparr>"
  proof
    assume zs: "zero_sum hexA \<and> zero_sum hexB"
    then have "hex_q hexA + hex_q hexB + (hex_r hexA + hex_r hexB) + (hex_s hexA + hex_s hexB) = 0"
      by (simp add: zero_sum_def)
    then have "Hex_add hexA hexB = \<lparr>hex_q = hex_q hexA + hex_q hexB, hex_r = hex_r hexA + hex_r hexB,
                             hex_s = hex_s hexA + hex_s hexB\<rparr>"
      unfolding Hex_add_def by (rule Hex_new_zero_sum)
    then show "zero_sum (Hex_add hexA hexB) \<and>
        Hex_add hexA hexB = \<lparr>hex_q = hex_q hexA + hex_q hexB, hex_r = hex_r hexA + hex_r hexB,
                             hex_s = hex_s hexA + hex_s hexB\<rparr>"
      using zs by (simp add: zero_sum_def)
  qed
  obtain a where a: "hex_round hex = recompute a hex"
    using hex_round_is_recompute by blast
  have c4: "zero_sum (hex_round hex)"
    "hex_q (hex_round hex) \<in> \<int>" "hex_r (hex_round hex) \<in> \<int>" "hex_s (hex_round hex) \<in> \<int>"
    using zero_sum_recompute [of a hex] Ints_recompute [of a hex] by (simp_all add: a)
  have c5: "GridHex_new gq gr gs = Inr gh \<longrightarrow> ghex_q gh + ghex_r gh + ghex_s gh = 0"
    by (auto simp add: GridHex_new_def split: if_splits)
  from c1 c2 c3 c4 c5 show ?thesis by (intro conjI)
qed

theorem zero_sum_invariant_witness:
  "(1::real) \<in> \<int> \<and> (2::real) \<in> \<int> \<and> (3::real) \<in> \<int>
   \<and> Hex_new (Some 1) (Some 2) (Some 3) = \<lparr>hex_q = 1, hex_r = 2, hex_s = - 3\<rparr>
   \<and> zero_sum \<lparr>hex_q = 1, hex_r = 0, hex_s = - 1\<rparr> \<and> zero_sum \<lparr>hex_q = 0, hex_r = 1, hex_s = - 1\<rparr>
   \<and> Hex_add \<lparr>hex_q = 1, hex_r = 0, hex_s = - 1\<rparr> \<lparr>hex_q = 0, hex_r = 1, hex_s = - 1\<rparr>
       = \<lparr>hex_q = 1, hex_r = 1, hex_s = - 2\<rparr>
   \<and> zero_sum (hex_round \<lparr>hex_q = 1 / 2, hex_r = 1 / 2, hex_s = - 1\<rparr>)
   \<and> GridHex_new 1 (- 1) 0 = Inr (candidate 1 (- 1))
   \<and> ghex_q (candidate 1 (- 1)) + ghex_r (candidate 1 (- 1)) + ghex_s (candidate 1 (- 1)) = 0"
  using zero_sum_invariant [of 1 2 3 "\<lparr>hex_q = 1, hex_r = 0, hex_s = - 1\<rparr>"
      "\<lparr>hex_q = 0, hex_r = 1, hex_s = - 1\<rparr>" "\<lparr>hex_q = 1 / 2, hex_r = 1 / 2, hex_s = - 1\<rparr>"
      1 "- 1" 0 "candidate 1 (- 1)"]
  by (simp add: zero_sum_def GridHex_new_def candidate_def)

subsection \<open>Pixel to hex in the pointy-top layout\<close>

lemma SQRT3_lower: "1732 / 1000 < SQRT3"
  unfolding SQRT3_def by (rule real_less_rsqrt) (simp add: power2_eq_square)

lemma SQRT3_upper: "SQRT3 < 1733 / 1000"
  unfolding SQRT3_def by (rule real_less_lsqrt) (simp_all add: power2_eq_square)

lemma SQRT3_sq2 [simp]: "SQRT3 * (SQRT3 * v) = 3 * v"
  using SQRT3_sq by (simp add: mult.assoc [symmetric])

lemma Math_round_eqI:
  "of_int n - 1 / 2 \<le> v \<Longrightarrow> v < of_int n + 1 / 2 \<Longrightarrow> Math_round v = of_int n"
  unfolding Math_round_def by (simp add: floor_unique)

text \<open>
  With the orientation constants of the source both fractional axial components are the
  same combination of the normalised point, \<open>\<surd>3 \<cdot> x + \<surd>3/2 \<cdot> y\<close>.
\<close>

lemma pixel_to_hex_pointy:
  assumes "sz \<noteq> 0"
  shows "pixel_to_hex p (pointy_layout sz c) =
     Some (hex_round
       \<lparr>hex_q = SQRT3 * ((point_x p - point_x c) / sz) + SQRT3 / 2 * ((point_y p - point_y c) / sz),
        hex_r = SQRT3 * ((point_x p - point_x c) / sz) + SQRT3 / 2 * ((point_y p - point_y c) / sz),
        hex_s = - (SQRT3 * ((point_x p - point_x c) / sz) + SQRT3 / 2 * ((point_y p - point_y c) / sz))
                - (SQRT3 * ((point_x p - point_x c) / sz) + SQRT3 / 2 * ((point_y p - point_y c) / sz))\<rparr>)"
  using assms
  by (simp add: pixel_to_hex_def pointy_layout_def HEX_CONSTANTS_orientation_def Let_def
      Hex_new_zero_sum)

lemma pixel_to_hex_centre:
  "pixel_to_hex \<lparr>point_x = 400, point_y = 300\<rparr> (pointy_layout 50 \<lparr>point_x = 400, point_y = 300\<rparr>)
     = Some \<lparr>hex_q = 0, hex_r = 0, hex_s = 0\<rparr>"
  by (simp add: pixel_to_hex_pointy hex_round_recompute recompute_def delta_q_def delta_r_def
      delta_s_def)

lemma Math_round_above: "Math_round (- (SQRT3 * 3 / 2)) = - 3" "Math_round (3 * SQRT3) = 5"
  using SQRT3_lower SQRT3_upper Math_round_eqI [of "- 3" "- (SQRT3 * 3 / 2)"]
    Math_round_eqI [of "5" "3 * SQRT3"] by simp_all

lemma pixel_to_hex_above:
  "pixel_to_hex \<lparr>point_x = 400, point_y = 150\<rparr> (pointy_layout 50 \<lparr>point_x = 400, point_y = 300\<rparr>)
     = Some \<lparr>hex_q = - 3, hex_r = - 2, hex_s = 5\<rparr>"
proof -
  have "hex_round \<lparr>hex_q = - (SQRT3 * 3 / 2), hex_r = - (SQRT3 * 3 / 2), hex_s = 3 * SQRT3\<rparr>
      = \<lparr>hex_q = - 3, hex_r = - 2, hex_s = 5\<rparr>"
    using SQRT3_lower SQRT3_upper
    by (simp add: hex_round_recompute recompute_def delta_q_def delta_r_def delta_s_def
        Math_round_above)
  then show ?thesis
    by (simp add: pixel_to_hex_pointy)
qed

text \<open>
  Converting a hex to its pixel centre and back: the size and the origin cancel, and both
  fractional axial components become \<open>9/2 \<cdot> q + 9/4 \<cdot> r\<close>.
\<close>

lemma round_trip_value:
  assumes "sz \<noteq> 0"
  shows "pixel_to_hex (hex_to_pixel hex (pointy_layout sz c)) (pointy_layout sz c) =
     Some (hex_round
       \<lparr>hex_q = 9 / 2 * hex_q hex + 9 / 4 * hex_r hex,
        hex_r = 9 / 2 * hex_q hex + 9 / 4 * hex_r hex,
        hex_s = - (9 / 2 * hex_q hex + 9 / 4 * hex_r hex) - (9 / 2 * hex_q hex + 9 / 4 * hex_r hex)\<rparr>)"
proof -
  define t where "t = SQRT3 * hex_q hex + SQRT3 / 2 * hex_r hex"
  have px: "(point_x (hex_to_pixel hex (pointy_layout sz c)) - point_x c) / sz = t"
    using assms
    by (simp add: hex_to_pixel_def pointy_layout_def HEX_CONSTANTS_orientation_def Let_def t_def)
  have py: "(point_y (hex_to_pixel hex (pointy_layout sz c)) - point_y c) / sz = t"
    using assms
    by (simp add: hex_to_pixel_def pointy_layout_def HEX_CONSTANTS_orientation_def Let_def t_def)
  have v: "SQRT3 * t + SQRT3 / 2 * t = 9 / 2 * hex_q hex + 9 / 4 * hex_r hex"
    by (simp add: t_def algebra_simps)
  show ?thesis
    by (simp only: pixel_to_hex_pointy [OF assms] px py v)
qed

lemma Math_round_quarters: "Math_round (9 / 4) = 2" "Math_round (- (9 / 2)) = - 4"
  using Math_round_eqI [of 2 "9 / 4"] Math_round_eqI [of "- 4" "- (9 / 2)"] by simp_all

lemma Math_round_bounds: "Math_round v - 1 / 2 \<le> v" "v < Math_round v + 1 / 2"
  unfolding Math_round_def by linarith+

lemma hex_round_diagonal_cases:
  "hex_round \<lparr>hex_q = v, hex_r = v, hex_s = - v - v\<rparr> =
     (if \<bar>Math_round v - v\<bar> > \<bar>Math_round (- v - v) - (- v - v)\<bar>
      then \<lparr>hex_q = Math_round v, hex_r = - Math_round v - Math_round (- v - v),
             hex_s = Math_round (- v - v)\<rparr>
      else \<lparr>hex_q = Math_round v, hex_r = Math_round v, hex_s = - Math_round v - Math_round v\<rparr>)"
  by (simp add: hex_round_recompute recompute_def delta_q_def delta_r_def delta_s_def Let_def)

text \<open>
  Among the integer coordinates only the origin survives the round trip, whatever the cell
  size and the origin of the layout.
\<close>

lemma round_trip_only_origin:
  assumes "sz \<noteq> 0"
  shows "pixel_to_hex (hex_to_pixel (cube q r (- q - r)) (pointy_layout sz c)) (pointy_layout sz c)
           = Some (cube q r (- q - r))
         \<longleftrightarrow> q = 0 \<and> r = 0"
proof -
  define v :: real where "v = 9 / 2 * of_int q + 9 / 4 * of_int r"
  have rt: "pixel_to_hex (hex_to_pixel (cube q r (- q - r)) (pointy_layout sz c)) (pointy_layout sz c)
      = Some (hex_round \<lparr>hex_q = v, hex_r = v, hex_s = - v - v\<rparr>)"
    using round_trip_value [OF assms, of "cube q r (- q - r)" c] by (simp add: cube_def v_def)
  show ?thesis
  proof
    assume "pixel_to_hex (hex_to_pixel (cube q r (- q - r)) (pointy_layout sz c)) (pointy_layout sz c)
           = Some (cube q r (- q - r))"
    then have eq: "hex_round \<lparr>hex_q = v, hex_r = v, hex_s = - v - v\<rparr> = cube q r (- q - r)"
      by (simp add: rt)
    have nq: "Math_round v = of_int q"
      using eq unfolding hex_round_diagonal_cases cube_def by (simp split: if_splits)
    have b1: "of_int q - 1 / 2 \<le> v" "v < of_int q + 1 / 2"
      using Math_round_bounds [of v, unfolded nq] by simp_all
    have "(of_int (4 * q - 2) :: real) \<le> of_int (18 * q + 9 * r)"
      "(of_int (18 * q + 9 * r) :: real) < of_int (4 * q + 2)"
      using b1 by (simp_all add: v_def)
    then have i1: "4 * q - 2 \<le> 18 * q + 9 * r" "18 * q + 9 * r < 4 * q + 2"
      by (simp_all only: of_int_le_iff of_int_less_iff)
    have alt: "of_int r = Math_round v \<or> Math_round (- v - v) = of_int (- q - r)"
      using eq unfolding hex_round_diagonal_cases cube_def by (auto split: if_splits)
    then show "q = 0 \<and> r = 0"
    proof
      assume "of_int r = Math_round v"
      with nq have "(of_int r :: real) = of_int q" by (simp only:)
      then have rq: "r = q" by (simp only: of_int_eq_iff)
      from i1 have "q = 0" unfolding rq by linarith
      with rq show ?thesis by simp
    next
      assume ns: "Math_round (- v - v) = of_int (- q - r)"
      have b2: "of_int (- q - r) - 1 / 2 \<le> - v - v" "- v - v < of_int (- q - r) + 1 / 2"
        using Math_round_bounds [of "- v - v", unfolded ns] by simp_all
      have "(of_int (7 * r) :: real) \<le> of_int (1 - 16 * q)"
        "(of_int (- 1 - 16 * q) :: real) < of_int (7 * r)"
        using b2 by (simp_all add: v_def)
      then have i2: "7 * r \<le> 1 - 16 * q" "- 1 - 16 * q < 7 * r"
        by (simp_all only: of_int_le_iff of_int_less_iff)
      from i1 have a: "- 2 \<le> 14 * q + 9 * r" "14 * q + 9 * r \<le> 1" by linarith+
      from i2 have b: "0 \<le> 16 * q + 7 * r" "16 * q + 7 * r \<le> 1" by linarith+
      from a b have "- 23 \<le> - (46 * q)" "- (46 * q) \<le> 7" by linarith+
      then have q0: "q = 0" by linarith
      from i1 have "r = 0" unfolding q0 by linarith
      with q0 show ?thesis by simp
    qed
  next
    assume "q = 0 \<and> r = 0"
    then show "pixel_to_hex (hex_to_pixel (cube q r (- q - r)) (pointy_layout sz c)) (pointy_layout sz c)
           = Some (cube q r (- q - r))"
      unfolding rt hex_round_diagonal_cases by (simp add: v_def cube_def)
  qed
qed

text \<open>
  Claim C1 asks that \<open>toCoordinate (toPixel C layout) layout = C\<close> for every coordinate
  and every valid layout.  In the pointy-top layout with cell size 50 and origin
  \<open>(400, 300)\<close> the coordinate \<open>(0, 1, -1)\<close> has its centre at
  \<open>(400 + 25\<surd>3, 300 + 25\<surd>3)\<close>, and converting that point back gives \<open>(2, 2, -4)\<close>.
\<close>

theorem round_trip_fails:
  "pixel_to_hex (hex_to_pixel \<lparr>hex_q = 0, hex_r = 1, hex_s = - 1\<rparr>
       (pointy_layout 50 \<lparr>point_x = 400, point_y = 300\<rparr>))
     (pointy_layout 50 \<lparr>point_x = 400, point_y = 300\<rparr>)
   = Some \<lparr>hex_q = 2, hex_r = 2, hex_s = - 4\<rparr>
   \<and> pixel_to_hex (hex_to_pixel \<lparr>hex_q = 0, hex_r = 1, hex_s = - 1\<rparr>
       (pointy_layout 50 \<lparr>point_x = 400, point_y = 300\<rparr>))
     (pointy_layout 50 \<lparr>point_x = 400, point_y = 300\<rparr>)
   \<noteq> Some \<lparr>hex_q = 0, hex_r = 1, hex_s = - 1\<rparr>"
  by (simp add: round_trip_value hex_round_recompute recompute_def delta_q_def delta_r_def
      delta_s_def Math_round_quarters)

text \<open>
  Claim C2, as stated: with pointy-top orientation, cell size 50 and origin \<open>(400, 300)\<close>
  the point \<open>(400, 300)\<close> converts to \<open>(0, 0, 0)\<close> and the point \<open>(400, 150)\<close> to a
  coordinate whose r component is \<open>-1\<close>.  The second half fails.
\<close>

theorem end_to_end_scenario_counterexample:
  "\<not> (pixel_to_hex \<lparr>point_x = 400, point_y = 300\<rparr>
          (pointy_layout 50 \<lparr>point_x = 400, point_y = 300\<rparr>)
        = Some \<lparr>hex_q = 0, hex_r = 0, hex_s = 0\<rparr>
      \<and> map_option hex_r (pixel_to_hex \<lparr>point_x = 400, point_y = 150\<rparr>
          (pointy_layout 50 \<lparr>point_x = 400, point_y = 300\<rparr>)) = Some (- 1))"
  by (simp add: pixel_to_hex_above)

text \<open>
  Claim C2, amended: in the same scenario the point \<open>(400, 300)\<close> converts to \<open>(0, 0, 0)\<close>
  and the point \<open>(400, 150)\<close>, which lies three cell sizes above the origin, converts to a
  coordinate whose r component is \<open>-2\<close>.
\<close>

theorem end_to_end_scenario:
  "pixel_to_hex \<lparr>point_x = 400, point_y = 300\<rparr>
      (pointy_layout 50 \<lparr>point_x = 400, point_y = 300\<rparr>)
    = Some \<lparr>hex_q = 0, hex_r = 0, hex_s = 0\<rparr>
   \<and> map_option hex_r (pixel_to_hex \<lparr>point_x = 400, point_y = 150\<rparr>
      (pointy_layout 50 \<lparr>point_x = 400, point_y = 300\<rparr>)) = Some (- 2)"
  by (simp add: pixel_to_hex_centre pixel_to_hex_above)

subsection \<open>The radius-bounded enumeration\<close>

lemma cube_inj [simp]: "cube q r s = cube q' r' s' \<longleftrightarrow> q = q' \<and> r = r' \<and> s = s'"
  by (simp add: cube_def)

lemma radius_row_cube:
  "radius_row R q = map (\<lambda>r. cube q r (- q - r)) [max (- R) (- q - R) .. min R (- q + R)]"
  by (simp add: radius_row_def cube_def Hex_new_zero_sum)

lemma set_radius_row:
  "set (radius_row R q) = {cube q r (- q - r) | r. max (- R) (- q - R) \<le> r \<and> r \<le> min R (- q + R)}"
  by (auto simp add: radius_row_cube)

lemma set_radius_hexes: "set (radius_hexes R) = disk R"
proof (rule set_eqI)
  fix h
  have "h \<in> set (radius_hexes R) \<longleftrightarrow>
      (\<exists>q r. - R \<le> q \<and> q \<le> R \<and> max (- R) (- q - R) \<le> r \<and> r \<le> min R (- q + R)
          \<and> h = cube q r (- q - r))"
    by (auto simp add: radius_hexes_def set_radius_row)
  also have "\<dots> \<longleftrightarrow> (\<exists>q r s. q + r + s = 0 \<and> max \<bar>q\<bar> (max \<bar>r\<bar> \<bar>s\<bar>) \<le> R \<and> h = cube q r s)"
  proof
    assume "\<exists>q r. - R \<le> q \<and> q \<le> R \<and> max (- R) (- q - R) \<le> r \<and> r \<le> min R (- q + R)
          \<and> h = cube q r (- q - r)"
    then obtain q r where "- R \<le> q" "q \<le> R" "max (- R) (- q - R) \<le> r" "r \<le> min R (- q + R)"
      "h = cube q r (- q - r)" by blast
    then have "q + r + (- q - r) = 0 \<and> max \<bar>q\<bar> (max \<bar>r\<bar> \<bar>- q - r\<bar>) \<le> R \<and> h = cube q r (- q - r)"
      by auto
    then show "\<exists>q r s. q + r + s = 0 \<and> max \<bar>q\<bar> (max \<bar>r\<bar> \<bar>s\<bar>) \<le> R \<and> h = cube q r s"
      by blast
  next
    assume "\<exists>q r s. q + r + s = 0 \<and> max \<bar>q\<bar> (max \<bar>r\<bar> \<bar>s\<bar>) \<le> R \<and> h = cube q r s"
    then obtain q r s where "q + r + s = 0" "max \<bar>q\<bar> (max \<bar>r\<bar> \<bar>s\<bar>) \<le> R" "h = cube q r s"
      by blast
    then have "- R \<le> q \<and> q \<le> R \<and> max (- R) (- q - R) \<le> r \<and> r \<le> min R (- q + R)
          \<and> h = cube q r (- q - r)"
      by (auto simp add: algebra_simps)
    then show "\<exists>q r. - R \<le> q \<and> q \<le> R \<and> max (- R) (- q - R) \<le> r \<and> r \<le> min R (- q + R)
          \<and> h = cube q r (- q - r)"
      by blast
  qed
  also have "\<dots> \<longleftrightarrow> h \<in> disk R"
    by (auto simp add: disk_def)
  finally show "h \<in> set (radius_hexes R) \<longleftrightarrow> h \<in> disk R" .
qed

lemma distinct_radius_row: "distinct (radius_row R q)"
  by (simp add: radius_row_cube distinct_map inj_on_def)

lemma hex_q_radius_row: "h \<in> set (radius_row R q) \<Longrightarrow> hex_q h = of_int q"
  by (auto simp add: radius_row_cube cube_def)

lemma distinct_rows: "distinct qs \<Longrightarrow> distinct (concat (map (radius_row R) qs))"
proof (induction qs)
  case Nil
  then show ?case by simp
next
  case (Cons q qs)
  have "set (radius_row R q) \<inter> set (concat (map (radius_row R) qs)) = {}"
  proof (rule ccontr)
    assume "set (radius_row R q) \<inter> set (concat (map (radius_row R) qs)) \<noteq> {}"
    then obtain h q' where h: "h \<in> set (radius_row R q)" "q' \<in> set qs" "h \<in> set (radius_row R q')"
      by auto
    then have "(of_int q :: real) = of_int q'"
      using hex_q_radius_row [of h R q] hex_q_radius_row [of h R q'] by simp
    then have "q = q'" by simp
    with Cons.prems h show False by simp
  qed
  with Cons show ?case by (simp add: distinct_radius_row)
qed

lemma distinct_radius_hexes: "distinct (radius_hexes R)"
  by (simp add: radius_hexes_def distinct_rows)

lemma length_radius_row:
  "- R \<le> q \<Longrightarrow> q \<le> R \<Longrightarrow> int (length (radius_row R q)) = 2 * R + 1 - \<bar>q\<bar>"
  by (auto simp add: radius_row_cube)

lemma sum_rows:
  "int n \<le> R \<Longrightarrow>
   (\<Sum>q\<leftarrow>[- int n .. int n]. int (length (radius_row R q)))
     = (2 * int n + 1) * (2 * R + 1) - int n * (int n + 1)"
proof (induction n)
  case 0
  then show ?case by (simp add: length_radius_row)
next
  case (Suc n)
  have split: "[- int (Suc n) .. int (Suc n)] = (- int (Suc n)) # [- int n .. int n] @ [int (Suc n)]"
  proof -
    have "[- int (Suc n) .. int (Suc n)] = (- int (Suc n)) # [- int (Suc n) + 1 .. int (Suc n)]"
      by (rule upto_rec1) simp
    also have "[- int (Suc n) + 1 .. int (Suc n)] = [- int (Suc n) + 1 .. int (Suc n) - 1] @ [int (Suc n)]"
      by (rule upto_rec2) simp
    finally show ?thesis by simp
  qed
  have "(\<Sum>q\<leftarrow>[- int n .. int n]. int (length (radius_row R q)))
     = (2 * int n + 1) * (2 * R + 1) - int n * (int n + 1)"
    using Suc by simp
  moreover have "int (length (radius_row R (- int (Suc n)))) = 2 * R + 1 - int (Suc n)"
    using Suc.prems length_radius_row [of R "- int (Suc n)"] by simp
  moreover have "int (length (radius_row R (int (Suc n)))) = 2 * R + 1 - int (Suc n)"
    using Suc.prems length_radius_row [of R "int (Suc n)"] by simp
  ultimately show ?case
    unfolding split by (simp add: algebra_simps)
qed

lemma length_radius_hexes:
  assumes "0 \<le> R"
  shows "int (length (radius_hexes R)) = 3 * R\<^sup>2 + 3 * R + 1"
proof -
  have "int (length (radius_hexes R)) = (\<Sum>q\<leftarrow>[- R .. R]. int (length (radius_row R q)))"
    by (simp add: radius_hexes_def length_concat comp_def sum_list_of_nat [symmetric])
  also have "\<dots> = (2 * R + 1) * (2 * R + 1) - R * (R + 1)"
    using sum_rows [of "nat R" R] assms by simp
  also have "\<dots> = 3 * R\<^sup>2 + 3 * R + 1"
    by (simp add: power2_eq_square algebra_simps)
  finally show ?thesis .
qed

text \<open>
  Claim C5.  For a radius \<open>R \<ge> 0\<close> the two nested loops (q from \<open>-R\<close> to \<open>R\<close>, r from
  \<open>max (-R) (-q-R)\<close> to \<open>min R (-q+R)\<close>, s derived) produce exactly the zero-sum
  coordinates with \<open>max (|q|, |r|, |s|) \<le> R\<close>, each of them once, \<open>3R\<^sup>2 + 3R + 1\<close> in all.
\<close>

theorem radius_disk_enumeration:
  assumes "0 \<le> R"
  shows "set (radius_hexes R) = disk R \<and> distinct (radius_hexes R)
       \<and> int (length (radius_hexes R)) = 3 * R\<^sup>2 + 3 * R + 1"
  using assms by (simp add: set_radius_hexes distinct_radius_hexes length_radius_hexes)

theorem radius_disk_enumeration_witness:
  "(0::int) \<le> 0 \<and> (0::int) \<le> 1 \<and> (0::int) \<le> 2
   \<and> length (radius_hexes 0) = 1 \<and> length (radius_hexes 1) = 7 \<and> length (radius_hexes 2) = 19
   \<and> set (radius_hexes 2) = disk 2 \<and> distinct (radius_hexes 2)"
  using radius_disk_enumeration [of 0] radius_disk_enumeration [of 1]
    radius_disk_enumeration [of 2]
  by simp

subsection \<open>Fitting the grid to the viewport\<close>

text \<open>
  For a viewport of positive width and height the cell size is positive and the smaller
  of the two recomputed radii is \<open>101/18\<close>, so the radius is 5 whatever the viewport.  A
  viewport of width or height 0 gives the cell size 0, the radius \<open>NaN\<close> and no hexes.
\<close>

lemma SQRT3_pos: "0 < SQRT3"
  by (simp add: SQRT3_def)

lemma fit_radius:
  assumes "0 < W" "0 < H"
    and sz: "sz = min (W / 11 / SQRT3) (H / 11 / 2) * 0.9"
  shows "0 < sz"
    and "\<lfloor>min ((H / sz / 2 - 1) / 2) ((W / sz / SQRT3 - 1) / 2)\<rfloor> = (5::int)"
proof -
  define a where "a = W / 11 / SQRT3"
  define b where "b = H / 11 / 2"
  have pos: "0 < a" "0 < b" using assms SQRT3_pos by (simp_all add: a_def b_def)
  have W: "W = 11 * (SQRT3 * a)" using SQRT3_pos by (simp add: a_def)
  have H: "H = 22 * b" by (simp add: b_def)
  have sz': "sz = min a b * 0.9" by (simp add: sz a_def b_def)
  show sz_pos: "0 < sz" using pos by (simp add: sz')
  have le: "sz \<le> 0.9 * a" "sz \<le> 0.9 * b" by (simp_all add: sz')
  have eq: "sz = 0.9 * a \<or> sz = 0.9 * b" by (auto simp add: sz' min_def)
  have q1: "22 \<le> H / sz"
    using sz_pos le pos by (simp add: pos_le_divide_eq H)
  have "11 * sz \<le> 11 * a" using le pos by simp
  then have "11 * sz * SQRT3 \<le> 11 * a * SQRT3"
    using SQRT3_pos by (simp only: mult_le_cancel_right_pos)
  then have q2: "11 \<le> W / sz / SQRT3"
    using sz_pos SQRT3_pos by (simp add: pos_le_divide_eq W mult.commute mult.left_commute)
  have q3: "H / sz < 26 \<or> W / sz / SQRT3 < 13"
  proof (rule disjE [OF eq])
    assume e: "sz = 0.9 * a"
    have "W / sz / SQRT3 < 13"
      unfolding e W using pos SQRT3_pos by simp
    then show ?thesis by (rule disjI2)
  next
    assume e: "sz = 0.9 * b"
    have "H / sz < 26"
      unfolding e H using pos by simp
    then show ?thesis by (rule disjI1)
  qed
  have lo: "5 \<le> min ((H / sz / 2 - 1) / 2) ((W / sz / SQRT3 - 1) / 2)"
    using q1 q2 by simp
  have hi: "min ((H / sz / 2 - 1) / 2) ((W / sz / SQRT3 - 1) / 2) < 6"
    using q3 by (auto simp add: min_less_iff_disj)
  show "\<lfloor>min ((H / sz / 2 - 1) / 2) ((W / sz / SQRT3 - 1) / 2)\<rfloor> = (5::int)"
    using lo hi by (simp add: floor_unique)
qed

lemma updateGridDisplay_positive:
  assumes "0 < W" "0 < H"
  shows "updateGridDisplay W H st =
     st\<lparr>gameHexes := radius_hexes 5,
        currentHexSize := min (W / 11 / SQRT3) (H / 11 / 2) * 0.9,
        currentScreenCenter := \<lparr>point_x = W / 2, point_y = H / 2\<rparr>,
        currentMaxRadius := Some 5\<rparr>"
proof -
  define sz where "sz = min (W / 11 / SQRT3) (H / 11 / 2) * 0.9"
  have alt: "min (if (5::real) > 0 then (W / (2 * 5 + 1)) / SQRT3 else W / 2)
                 (if (5::real) > 0 then (H / (2 * 5 + 1)) / 2 else H / 2) * 0.9 = sz"
    by (simp add: sz_def)
  have nz: "sz \<noteq> 0" and fl: "\<lfloor>min ((H / sz / 2 - 1) / 2) ((W / sz / SQRT3 - 1) / 2)\<rfloor> = (5::int)"
    using fit_radius [OF assms sz_def] by simp_all
  have "updateGridDisplay W H st =
     st\<lparr>gameHexes := radius_hexes 5, currentHexSize := sz,
        currentScreenCenter := \<lparr>point_x = W / 2, point_y = H / 2\<rparr>,
        currentMaxRadius := Some 5\<rparr>"
    unfolding updateGridDisplay_def Let_def alt
    by (simp only: nz fl if_False max.absorb2 option.case)
  then show ?thesis by (simp only: sz_def)
qed

lemma updateGridDisplay_zero:
  assumes "W = 0 \<and> 0 \<le> H \<or> H = 0 \<and> 0 \<le> W"
  shows "updateGridDisplay W H st =
     st\<lparr>gameHexes := [], currentHexSize := 0,
        currentScreenCenter := \<lparr>point_x = W / 2, point_y = H / 2\<rparr>,
        currentMaxRadius := None\<rparr>"
proof -
  have "0 \<le> W / 11 / SQRT3" "0 \<le> H / 11 / 2" "W / 11 / SQRT3 = 0 \<or> H / 11 / 2 = 0"
    using assms SQRT3_pos by auto
  then have "min (W / 11 / SQRT3) (H / 11 / 2) = 0"
    by (auto simp only: min_def split: if_splits)
  then have alt: "min (if (5::real) > 0 then (W / (2 * 5 + 1)) / SQRT3 else W / 2)
                 (if (5::real) > 0 then (H / (2 * 5 + 1)) / 2 else H / 2) * 0.9 = 0"
    by simp
  show ?thesis
    unfolding updateGridDisplay_def Let_def alt
    by simp
qed

lemma rebuild_keeps_members:
  assumes "0 < W" "0 < H" "0 < W'" "0 < H'"
  shows "set (gameHexes (updateGridDisplay W' H' st')) = set (gameHexes (updateGridDisplay W H st))"
  using assms by (simp add: updateGridDisplay_positive)

lemma onWindowResize_eq: "onWindowResize W H st = updateGridDisplay W H st"
  by (simp add: onWindowResize_def updateGridDisplay_def Let_def)

subsection \<open>Clicks and the selection\<close>

lemma Hex_equals_iff: "Hex_equals hexA (hexB :: Hex) \<longleftrightarrow> hexA = hexB"
  by (cases hexA, cases hexB) (simp add: Hex_equals_def)

lemma find_Hex_equals:
  "find (\<lambda>hex. Hex_equals hex c) hs = (if c \<in> set hs then Some c else None)"
  by (induction hs) (auto simp add: Hex_equals_iff)

lemma onHexClick_cases:
  "onHexClick p st =
     (let st1 = (if selectedHexGraphics st
                 then st\<lparr>selectedHexGraphics := False, selectedHex := None\<rparr> else st)
      in case pixel_to_hex p (pointy_layout (currentHexSize st) (currentScreenCenter st)) of
           None \<Rightarrow> st1
         | Some c \<Rightarrow> if c \<in> set (gameHexes st)
                     then st1\<lparr>selectedHex := Some c, selectedHexGraphics := True\<rparr> else st1)"
  by (simp add: onHexClick_def Let_def find_Hex_equals split: option.splits)

lemma selection_consistent_initial: "selection_consistent initial_State"
  by (simp add: selection_consistent_def initial_State_def)

lemma selection_consistent_updateGridDisplay:
  "selection_consistent st \<Longrightarrow> selection_consistent (updateGridDisplay W H st)"
  by (simp add: selection_consistent_def updateGridDisplay_def Let_def)

lemma selection_consistent_onWindowResize:
  "selection_consistent st \<Longrightarrow> selection_consistent (onWindowResize W H st)"
  by (simp add: onWindowResize_eq selection_consistent_updateGridDisplay)

lemma selection_consistent_onHexClick:
  "selection_consistent st \<Longrightarrow> selection_consistent (onHexClick p st)"
  by (auto simp add: selection_consistent_def onHexClick_cases Let_def split: option.splits)

lemma onHexClick_miss:
  assumes "selection_consistent st" and "no_match p st"
  shows "onHexClick p st = st\<lparr>selectedHex := None, selectedHexGraphics := False\<rparr>"
  using assms
  by (cases st)
     (auto simp add: selection_consistent_def no_match_def onHexClick_cases Let_def
        split: option.splits)

lemma onHexClick_match:
  assumes "pixel_to_hex p (pointy_layout (currentHexSize st) (currentScreenCenter st)) = Some c"
    and "c \<in> set (gameHexes st)"
  shows "onHexClick p st = st\<lparr>selectedHex := Some c, selectedHexGraphics := True\<rparr>"
  using assms
  by (cases st) (auto simp add: onHexClick_cases Let_def)

lemma scenario_size: "min (800 / 11 / SQRT3) (600 / 11 / 2) * 0.9 = 270 / 11"
proof -
  have "SQRT3 * 600 \<le> 1600" using SQRT3_upper by simp
  then have "(600::real) / 11 / 2 \<le> 800 / 11 / SQRT3"
    using SQRT3_pos by (simp add: field_simps)
  then show ?thesis by (simp add: min_def)
qed

lemma scenario_grid_eq:
  "scenario_grid = initial_State\<lparr>gameHexes := radius_hexes 5, currentHexSize := 270 / 11,
      currentScreenCenter := \<lparr>point_x = 400, point_y = 300\<rparr>, currentMaxRadius := Some 5\<rparr>"
proof -
  have "onWindowResize 800 600 initial_State =
     initial_State\<lparr>gameHexes := radius_hexes 5,
        currentHexSize := min (800 / 11 / SQRT3) (600 / 11 / 2) * 0.9,
        currentScreenCenter := \<lparr>point_x = 800 / 2, point_y = 600 / 2\<rparr>,
        currentMaxRadius := Some 5\<rparr>"
    unfolding onWindowResize_eq by (rule updateGridDisplay_positive) simp_all
  then show ?thesis
    unfolding scenario_grid_def by (simp only: scenario_size) simp
qed

lemma pixel_to_hex_origin:
  "sz \<noteq> 0 \<Longrightarrow> pixel_to_hex c (pointy_layout sz c) = Some (cube 0 0 0)"
  by (simp add: pixel_to_hex_pointy hex_round_recompute recompute_def delta_q_def delta_r_def
      delta_s_def cube_def)

lemma cube_in_disk: "cube q r s \<in> disk R \<longleftrightarrow> q + r + s = 0 \<and> max \<bar>q\<bar> (max \<bar>r\<bar> \<bar>s\<bar>) \<le> R"
  by (auto simp add: disk_def)

lemma scenario_selected_eq:
  "scenario_selected = scenario_grid\<lparr>selectedHex := Some (cube 0 0 0), selectedHexGraphics := True\<rparr>"
  unfolding scenario_selected_def
  by (rule onHexClick_match)
     (simp_all add: scenario_grid_eq pixel_to_hex_origin set_radius_hexes cube_in_disk)

text \<open>Rounding a fractional cube whose q and r components are equal.\<close>

lemma hex_round_diagonal:
  assumes "of_int n - 1 / 2 \<le> v" "v < of_int n + 1 / 2"
    and "of_int k - 1 / 2 \<le> - v - v" "- v - v < of_int k + 1 / 2"
  shows "hex_round \<lparr>hex_q = v, hex_r = v, hex_s = - v - v\<rparr> =
     (if \<bar>of_int n - v\<bar> > \<bar>of_int k - (- v - v)\<bar> then cube n (- n - k) k
      else cube n n (- n - n))"
proof -
  have "Math_round v = of_int n" "Math_round (- v - v) = of_int k"
    using assms by (simp_all add: Math_round_eqI)
  then show ?thesis
    by (simp add: hex_round_recompute recompute_def delta_q_def delta_r_def delta_s_def cube_def
        Let_def)
qed

lemma pixel_to_hex_corner:
  "pixel_to_hex \<lparr>point_x = 0, point_y = 0\<rparr> (pointy_layout (270 / 11) \<lparr>point_x = 400, point_y = 300\<rparr>)
     = Some (cube (- 39) (- 39) 78)"
proof -
  define v where "v = SQRT3 * ((0 - 400) / (270 / 11)) + SQRT3 / 2 * ((0 - 300) / (270 / 11))"
  have v: "v = - (605 * SQRT3 / 27)" by (simp add: v_def)
  have b: "of_int (- 39) - 1 / 2 \<le> v" "v < of_int (- 39) + 1 / 2"
    "of_int 78 - 1 / 2 \<le> - v - v" "- v - v < of_int 78 + 1 / 2"
    "\<not> \<bar>of_int (- 39) - v\<bar> > \<bar>of_int 78 - (- v - v)\<bar>"
    using SQRT3_lower SQRT3_upper by (simp_all add: v)
  have "hex_round \<lparr>hex_q = v, hex_r = v, hex_s = - v - v\<rparr> = cube (- 39) (- 39) 78"
    using hex_round_diagonal [OF b(1-4)] b(5) by simp
  moreover have "pixel_to_hex \<lparr>point_x = 0, point_y = 0\<rparr>
       (pointy_layout (270 / 11) \<lparr>point_x = 400, point_y = 300\<rparr>)
     = Some (hex_round \<lparr>hex_q = v, hex_r = v, hex_s = - v - v\<rparr>)"
    unfolding v_def
    using pixel_to_hex_pointy [of "270 / 11" "\<lparr>point_x = 0, point_y = 0\<rparr>" "\<lparr>point_x = 400, point_y = 300\<rparr>"]
    by (simp only: Point.select_convs)
  ultimately show ?thesis by simp
qed

text \<open>
  Claim C8 asks that a click whose converted coordinate is absent from the current grid
  leaves the selection exactly as it was, and throws nothing.  The handler is a total
  function of the click point and the state, so nothing is thrown; but it removes the
  previous selection before it looks at the match.  After the centre has been selected in
  the 800 by 600 viewport, a click on the corner \<open>(0, 0)\<close> converts to \<open>(-39, -39, 78)\<close>,
  which is not in the grid, and the selection \<open>(0, 0, 0)\<close> is gone afterwards.  The
  handler of the rectangle-bounded variant leaves the selection alone when a click carries
  no hex.
\<close>

theorem onHexClick_deselects_on_miss:
  "no_match \<lparr>point_x = 0, point_y = 0\<rparr> scenario_selected
   \<and> selectedHex scenario_selected = Some (cube 0 0 0)
   \<and> selectedHex (onHexClick \<lparr>point_x = 0, point_y = 0\<rparr> scenario_selected) = None
   \<and> selectedHex (onHexClick \<lparr>point_x = 0, point_y = 0\<rparr> scenario_selected)
       \<noteq> selectedHex scenario_selected"
proof -
  have c: "selection_consistent scenario_selected"
    by (simp add: scenario_selected_eq scenario_grid_eq selection_consistent_def initial_State_def)
  have n: "no_match \<lparr>point_x = 0, point_y = 0\<rparr> scenario_selected"
    by (simp add: no_match_def scenario_selected_eq scenario_grid_eq pixel_to_hex_corner
        set_radius_hexes cube_in_disk)
  have s: "selectedHex scenario_selected = Some (cube 0 0 0)"
    by (simp add: scenario_selected_eq)
  have "onHexClick \<lparr>point_x = 0, point_y = 0\<rparr> scenario_selected
      = scenario_selected\<lparr>selectedHex := None, selectedHexGraphics := False\<rparr>"
    using c n by (rule onHexClick_miss)
  then have "selectedHex (onHexClick \<lparr>point_x = 0, point_y = 0\<rparr> scenario_selected) = None"
    by simp
  with n s show ?thesis by simp
qed

text \<open>
  Claim C7 asks that after a rebuild a selected coordinate is a member of the new grid, the
  selection being dropped otherwise.  In the radius-bounded variant \<open>updateGridDisplay\<close>
  rebuilds the grid and leaves the selection alone: once \<open>(0, 0, 0)\<close> is selected and the
  viewport is resized to a width of 0, the grid is empty and \<open>(0, 0, 0)\<close> is still
  selected.
\<close>

theorem stale_selection_after_rebuild:
  "selectedHex scenario_selected = Some (cube 0 0 0)
   \<and> gameHexes scenario_collapsed = []
   \<and> selectedHex scenario_collapsed = Some (cube 0 0 0)"
  by (simp add: scenario_collapsed_def onWindowResize_eq updateGridDisplay_zero
      scenario_selected_eq)

subsection \<open>Identities of hexes\<close>










lemma hex_id_nonempty: "hex_id q r s \<noteq> []"
  by (simp add: hex_id_def)

subsection \<open>The rectangle-bounded enumeration\<close>

lemma GridHex_new_derived: "GridHex_new q r (- q - r) = Inr (candidate q r)"
  by (simp add: GridHex_new_def candidate_def)

lemma admit_hexes [simp]: "admit W H (g\<lparr>hexes := m\<rparr>) q r = admit W H g q r"
  by (simp add: admit_def)

lemma sweep_cell_eq:
  "sweep_cell W H q r g =
     Inr (if admit W H g q r then g\<lparr>hexes := (hexes g)(hex_id q r (- q - r) \<mapsto> candidate q r)\<rparr>
          else g)"
  by (simp add: sweep_cell_def GridHex_new_derived admit_def in_expanded_viewport_def Let_def)
     (simp add: candidate_def)

lemma entries_hexes [simp]: "entries W H (g\<lparr>hexes := m\<rparr>) q rs = entries W H g q rs"
  by (simp add: entries_def cong: filter_cong)

lemma map_of_rev_Cons: "m ++ map_of (rev ((k, v) # kvs)) = m(k \<mapsto> v) ++ map_of (rev kvs)"
  by (simp add: fun_eq_iff map_add_def split: option.splits)

lemma for_each_row:
  "for_each (\<lambda>r. sweep_cell W H q r) rs g =
     Inr (g\<lparr>hexes := hexes g ++ map_of (rev (entries W H g q rs))\<rparr>)"
proof (induction rs arbitrary: g)
  case Nil
  then show ?case by (simp add: entries_def)
next
  case (Cons r rs)
  define g1 where "g1 = (if admit W H g q r
      then g\<lparr>hexes := (hexes g)(hex_id q r (- q - r) \<mapsto> candidate q r)\<rparr> else g)"
  have "for_each (\<lambda>r. sweep_cell W H q r) (r # rs) g = for_each (\<lambda>r. sweep_cell W H q r) rs g1"
    by (simp add: sweep_cell_eq [of W H q r g] g1_def)
  also have "\<dots> = Inr (g1\<lparr>hexes := hexes g1 ++ map_of (rev (entries W H g1 q rs))\<rparr>)"
    by (rule Cons.IH)
  also have "g1\<lparr>hexes := hexes g1 ++ map_of (rev (entries W H g1 q rs))\<rparr>
      = g\<lparr>hexes := hexes g ++ map_of (rev (entries W H g q (r # rs)))\<rparr>"
  proof (cases "admit W H g q r")
    case True
    then have "entries W H g q (r # rs) = (hex_id q r (- q - r), candidate q r) # entries W H g q rs"
      by (simp add: entries_def)
    with True show ?thesis
      by (simp add: g1_def map_of_rev_Cons del: rev.simps map_of.simps)
  next
    case False
    then show ?thesis by (simp add: g1_def entries_def)
  qed
  finally show ?case .
qed

lemma all_entries_hexes [simp]: "all_entries W H (g\<lparr>hexes := m\<rparr>) qs rs = all_entries W H g qs rs"
  by (simp add: all_entries_def)

lemma for_each_rows:
  "for_each (\<lambda>q. for_each (\<lambda>r. sweep_cell W H q r) rs) qs g =
     Inr (g\<lparr>hexes := hexes g ++ map_of (rev (all_entries W H g qs rs))\<rparr>)"
proof (induction qs arbitrary: g)
  case Nil
  then show ?case by (simp add: all_entries_def)
next
  case (Cons q qs)
  define g1 where "g1 = g\<lparr>hexes := hexes g ++ map_of (rev (entries W H g q rs))\<rparr>"
  have "for_each (\<lambda>q. for_each (\<lambda>r. sweep_cell W H q r) rs) (q # qs) g
      = for_each (\<lambda>q. for_each (\<lambda>r. sweep_cell W H q r) rs) qs g1"
    by (simp add: for_each_row g1_def)
  also have "\<dots> = Inr (g1\<lparr>hexes := hexes g1 ++ map_of (rev (all_entries W H g1 qs rs))\<rparr>)"
    by (rule Cons.IH)
  also have "g1\<lparr>hexes := hexes g1 ++ map_of (rev (all_entries W H g1 qs rs))\<rparr>
      = g\<lparr>hexes := hexes g ++ map_of (rev (all_entries W H g (q # qs) rs))\<rparr>"
    by (simp add: g1_def all_entries_def)
  finally show ?case .
qed

lemma set_all_entries:
  "set (all_entries W H g qs rs) =
     {(hex_id q r (- q - r), candidate q r) | q r. q \<in> set qs \<and> r \<in> set rs \<and> admit W H g q r}"
  by (auto simp add: all_entries_def entries_def)


lemma map_of_entries_keyed:
  "map_of (rev (all_entries W H g qs rs)) k = Some h \<Longrightarrow>
     \<exists>q r. q \<in> set qs \<and> r \<in> set rs \<and> admit W H g q r \<and> k = hex_id q r (- q - r) \<and> h = candidate q r"
proof -
  assume "map_of (rev (all_entries W H g qs rs)) k = Some h"
  then have "(k, h) \<in> set (all_entries W H g qs rs)"
    using map_of_SomeD by fastforce
  then show ?thesis by (auto simp add: set_all_entries)
qed


lemma admit_fields:
  "hexSize g = hexSize g' \<Longrightarrow> hexOrientation g = hexOrientation g' \<Longrightarrow>
   gridCenter g = gridCenter g' \<Longrightarrow> admit W H g q r = admit W H g' q r"
  by (simp add: admit_def)

lemma all_entries_fields:
  assumes "hexSize g = hexSize g'" "hexOrientation g = hexOrientation g'"
    "gridCenter g = gridCenter g'"
  shows "all_entries W H g qs rs = all_entries W H g' qs rs"
proof -
  have eq: "admit W H g = admit W H g'"
    by (intro ext) (rule admit_fields [OF assms])
  show ?thesis by (simp only: all_entries_def entries_def eq)
qed

lemma sweep_eq:
  "sweep W H qMin qMax rMin rMax g =
     Inr (g\<lparr>hexes := hexes g ++ map_of (rev (all_entries W H g [qMin .. qMax] [rMin .. rMax]))\<rparr>)"
  by (simp add: sweep_def for_each_rows)

lemma generateGrid_eq:
  assumes "hexSize g \<noteq> 0"
  shows "generateGrid W H g =
     Some (Inr (g\<lparr>hexes := map_of (rev (all_entries W H
                     (g\<lparr>gridCenter := \<lparr>point_x = W / 2, point_y = H / 2\<rparr>\<rparr>)
                     [- sweep_qMax W g .. sweep_qMax W g] [- sweep_rMax H g .. sweep_rMax H g])),
                 gridCenter := \<lparr>point_x = W / 2, point_y = H / 2\<rparr>\<rparr>))"
proof -
  define g1 where "g1 = g\<lparr>hexes := Map.empty, gridCenter := \<lparr>point_x = W / 2, point_y = H / 2\<rparr>\<rparr>"
  have gen: "generateGrid W H g =
      Some (sweep W H (- sweep_qMax W g) (sweep_qMax W g) (- sweep_rMax H g) (sweep_rMax H g) g1)"
    using assms
    by (simp add: generateGrid_def Let_def sweep_qMax_def sweep_rMax_def g1_def)
  have ent: "all_entries W H g1 qs rs
      = all_entries W H (g\<lparr>gridCenter := \<lparr>point_x = W / 2, point_y = H / 2\<rparr>\<rparr>) qs rs" for qs rs
    by (rule all_entries_fields) (simp_all add: g1_def)
  show ?thesis
    by (simp add: gen sweep_eq ent) (simp add: g1_def)
qed



subsection \<open>The strict constructor\<close>

text \<open>
  Claim C9.  The strict constructor fails with an error exactly when the components do
  not sum to 0, and otherwise returns the coordinate with the three components as given.
\<close>

theorem GridHex_new_strict:
  "((\<exists>msg. GridHex_new q r s = Inl (Error msg)) \<longleftrightarrow> q + r + s \<noteq> 0)
   \<and> (q + r + s = 0 \<longrightarrow>
        GridHex_new q r s = Inr \<lparr>ghex_q = q, ghex_r = r, ghex_s = s, ghex_id = hex_id q r s\<rparr>)"
  by (simp add: GridHex_new_def)

theorem GridHex_new_strict_witness:
  "(\<exists>msg. GridHex_new 1 2 3 = Inl (Error msg)) \<and> (1::int) + 2 + 3 \<noteq> 0
   \<and> (1::int) + (- 1) + 0 = 0
   \<and> GridHex_new 1 (- 1) 0 = Inr \<lparr>ghex_q = 1, ghex_r = - 1, ghex_s = 0, ghex_id = hex_id 1 (- 1) 0\<rparr>
   \<and> hex_id 1 (- 1) 0 = ''1,-1,0''"
proof -
  have "hex_id 1 (- 1) 0 = ''1,-1,0''" by code_simp
  then show ?thesis
    using GridHex_new_strict [of 1 2 3] GridHex_new_strict [of 1 "- 1" 0] by simp
qed

subsection \<open>Redrawing the rectangle-bounded grid\<close>

lemma GameRenderer_onHexClick_no_hex: "GameRenderer_onHexClick None rd = rd"
  by (simp add: GameRenderer_onHexClick_def)

text \<open>
  \<open>drawGrid\<close> drops a selected identity that the grid no longer holds, so after
  \<open>resize\<close> a selected identity is a key of the regenerated grid.
\<close>

lemma drawGrid_invalidates:
  assumes "selectedHexId rd = Some i" "i \<noteq> []" "hexes (hexGrid rd) i = None"
  shows "selectedHexId (drawGrid rd) = None"
  using assms by (simp add: drawGrid_def Let_def)

lemma drawGrid_selected_member:
  assumes "keyed (hexGrid rd)" "selectedHexId rd \<noteq> Some []"
    and "selectedHexId (drawGrid rd) = Some i"
  shows "i \<in> dom (hexes (hexGrid rd)) \<and> selectedHexId rd = Some i"
proof -
  from assms(3) obtain j where j: "selectedHexId rd = Some j"
    by (cases "selectedHexId rd") (simp_all add: drawGrid_def Let_def)
  with assms(2) have ne: "j \<noteq> []" by simp
  show ?thesis
  proof (cases "hexes (hexGrid rd) j")
    case None
    with j ne assms(3) show ?thesis by (simp add: drawGrid_def Let_def)
  next
    case (Some h)
    with assms(1) have "ghex_id h = j" by (simp add: keyed_def)
    with j ne Some assms(3) show ?thesis
      by (auto simp add: drawGrid_def Let_def drawHighlight_def)
  qed
qed

lemma generateGrid_keyed:
  assumes "generateGrid W H g = Some (Inr g')"
  shows "keyed g'"
proof -
  have nz: "hexSize g \<noteq> 0" using assms by (auto simp add: generateGrid_def split: if_splits)
  define es where "es = all_entries W H (g\<lparr>gridCenter := \<lparr>point_x = W / 2, point_y = H / 2\<rparr>\<rparr>)
      [- sweep_qMax W g .. sweep_qMax W g] [- sweep_rMax H g .. sweep_rMax H g]"
  have "generateGrid W H g = Some (Inr (g\<lparr>hexes := map_of (rev es),
      gridCenter := \<lparr>point_x = W / 2, point_y = H / 2\<rparr>\<rparr>))"
    unfolding es_def using nz by (rule generateGrid_eq)
  with assms have "g' = g\<lparr>hexes := map_of (rev es),
      gridCenter := \<lparr>point_x = W / 2, point_y = H / 2\<rparr>\<rparr>" by simp
  then have g': "hexes g' = map_of (rev es)" by simp
  show ?thesis
    unfolding keyed_def
  proof (intro allI impI)
    fix k h
    assume "hexes g' k = Some h"
    then have "map_of (rev es) k = Some h" by (simp add: g')
    then obtain q r where "k = hex_id q r (- q - r)" "h = candidate q r"
      unfolding es_def using map_of_entries_keyed by blast
    then show "ghex_id h = k" by (simp add: candidate_def)
  qed
qed

lemma resize_selected_member:
  assumes "resize W H rd = Some (Inr rd')" "selectedHexId rd \<noteq> Some []"
    and "selectedHexId rd' = Some i"
  shows "i \<in> dom (hexes (hexGrid rd'))"
proof -
  from assms(1) obtain g' where g: "generateGrid W H (hexGrid rd) = Some (Inr g')"
    and rd': "rd' = drawGrid (rd\<lparr>hexGrid := g'\<rparr>)"
    by (auto simp add: resize_def split: option.splits sum.splits)
  have "keyed g'" using g by (rule generateGrid_keyed)
  then have "i \<in> dom (hexes (hexGrid (rd\<lparr>hexGrid := g'\<rparr>)))"
    using drawGrid_selected_member [of "rd\<lparr>hexGrid := g'\<rparr>" i] assms(2,3) rd' by simp
  moreover have "hexGrid rd' = g'"
    by (simp add: rd' drawGrid_def Let_def drawHighlight_def split: option.splits)
  ultimately show ?thesis by simp
qed

end
